theory Spec2Isabelle
  imports Complex_Main "HOL-Library.Word"
begin

section \<open>The command line of eos-scan-mc\<close>

text \<open>
  A shallow embedding of \<^verbatim>\<open>src/clients/eos-scan-mc.cc\<close>: the class
  \<^verbatim>\<open>CommandLine\<close> with its method \<^verbatim>\<open>parse\<close>, and \<^verbatim>\<open>main\<close>.

  \<^item> \<^verbatim>\<open>double\<close> is modelled by \<open>real\<close>: the code only compares, negates, adds and
    multiplies these values; rounding, infinities and NaN are outside the model.
  \<^item> \<^verbatim>\<open>unsigned\<close> is a 32-bit word, \<^verbatim>\<open>unsigned long\<close> a 64-bit word.
  \<^item> \<^verbatim>\<open>argv\<close> is a list of strings; the iterator \<^verbatim>\<open>a\<close> is the list of the
    arguments that follow the current one. Reading \<^verbatim>\<open>*(++a)\<close> when no argument is left
    builds a \<^verbatim>\<open>std::string\<close> from the terminating null pointer of \<^verbatim>\<open>argv\<close>. The
    language leaves this undefined; the standard library of the build throws
    \<^verbatim>\<open>std::logic_error\<close>. The model returns the failure \<open>ArgvOverrun\<close> there, which
    \<^verbatim>\<open>main\<close> handles as it handles every exception that is neither \<^verbatim>\<open>DoUsage\<close>
    nor the library's.
  \<^item> A \<^verbatim>\<open>throw\<close> is a value \<open>Inl\<close> of the type \<open>failure\<close>; the three handlers of
    \<^verbatim>\<open>main\<close> distinguish \<^verbatim>\<open>DoUsage\<close>, the library's \<^verbatim>\<open>Exception\<close> and
    everything else.
  \<^item> The classes of the EOS library that the file only calls (string conversion, priors,
    the analysis, constraints, observables, the optimizer and the sampler) are not part of
    the file. What they return is a parameter of the model, the record \<open>env\<close>.
  \<^item> Text written to standard output and to the log is not modelled.
\<close>

subsection \<open>Data\<close>

type_synonym unsigned = "32 word"

type_synonym ulong = "64 word"

datatype failure =
    DoUsage string
  | Exception string
  | UnknownException
  | ArgvOverrun
  | Abort

datatype LogLevel = ll_informational | ll_debug

record ParameterRange =
  range_min :: real
  range_max :: real

record ParameterData =
  parameter :: string
  min_value :: real
  max_value :: real
  prior :: string

datatype LogPrior =
    Flat string ParameterRange
  | Gauss string ParameterRange real real real
  | LogGamma string ParameterRange real real real
  | Discrete string "real set"

type_synonym Kinematics = "(string \<times> real) list"

type_synonym Options = "(string \<times> string) list"

record ObservableInput =
  observable :: string
  observable_options :: Options
  kinematics :: Kinematics
  input_min :: real
  input_central :: real
  input_max :: real

record Constraint =
  made_from :: string
  made_with :: Options

text \<open>The analysis: the priors added so far, each with its nuisance flag, and the
  parameter values fixed by \<^verbatim>\<open>--fix\<close>.\<close>

record Analysis =
  parameter_descriptions :: "(LogPrior \<times> bool) list"
  fixed_values :: "(string \<times> real) list"

text \<open>The fields of \<^verbatim>\<open>MarkovChainSampler::Config\<close> that the file assigns.\<close>

record Config =
  number_of_chains :: unsigned
  need_prerun :: bool
  need_main_run :: bool
  chunk_size :: unsigned
  chunks :: unsigned
  parallelize :: bool
  use_strict_rvalue_definition :: bool
  output_file :: string
  partitions :: "(string \<times> real \<times> real) list list"
  store_prerun :: bool
  store_observables_and_proposals :: bool
  prerun_chains_per_partition :: unsigned
  find_modes :: bool
  prerun_iterations_max :: unsigned
  prerun_iterations_min :: unsigned
  prerun_iterations_update :: unsigned
  block_proposal_parameters :: "string list"
  proposal :: string
  student_t_degrees_of_freedom :: real
  seed :: ulong
  scale_reduction :: real

record OptimizationOptions =
  algorithm :: string
  maximum_iterations :: unsigned
  mcmc_pre_run :: bool
  strategy_level :: unsigned

record CommandLine =
  global_options :: Options
  analysis :: Analysis
  config :: Config
  scan_parameters :: "ParameterData list"
  nuisance_parameters :: "ParameterData list"
  inputs :: "ObservableInput list"
  constraints :: "Constraint list"
  creator :: string
  partition_index :: "unsigned option"
  resume_file :: string
  massive_mode_finding :: bool
  massive_maximum_iterations :: unsigned
  optimize :: bool
  starting_point :: "real list"
  goodness_of_fit :: bool
  best_fit_point :: "real list"
  log_level :: LogLevel
  pending_kinematics :: Kinematics

text \<open>What \<^verbatim>\<open>main\<close> asks of the library, in the order it asks.\<close>

datatype action =
    OptimizeMinuit "real list"
  | GoodnessOfFit "real list" "string option"
  | ConstructSampler Analysis Config
  | MassiveModeFinding OptimizationOptions
  | SamplerRun

datatype status = EXIT_SUCCESS | EXIT_FAILURE | Crashed

record outcome =
  exit_status :: status
  performed :: "action list"
  caught :: "failure option"

subsection \<open>The library, as a parameter\<close>

text \<open>
  The library functions the file calls. A field of type \<open>_ \<Rightarrow> string option\<close> tells whether
  the call throws the library's \<^verbatim>\<open>Exception\<close>, and with which message.
\<close>

record env =
  destringify_double :: "string \<Rightarrow> real"
  destringify_unsigned :: "string \<Rightarrow> unsigned"
  destringify_ulong :: "string \<Rightarrow> ulong"
  stringify_unsigned :: "unsigned \<Rightarrow> string"
  stringify_size :: "nat \<Rightarrow> string"
  Config_Quick :: Config
  uninitialized_goodness_of_fit :: bool
  Parameters_lookup :: "string \<Rightarrow> string option"
  LogPrior_make :: "LogPrior \<Rightarrow> string option"
  Analysis_add :: "Analysis \<Rightarrow> LogPrior \<Rightarrow> bool \<Rightarrow> Analysis option"
  Analysis_log_prior :: "Analysis \<Rightarrow> string \<Rightarrow> LogPrior option"
  Constraint_make :: "string \<Rightarrow> Options \<Rightarrow> string option"
  Observable_make :: "string \<Rightarrow> Kinematics \<Rightarrow> Options \<Rightarrow> bool"
  time_now :: ulong
  LogPrior_sample :: "LogPrior \<Rightarrow> real"
  OptimizationOptions_Defaults :: OptimizationOptions
  minuit_parameters :: "Analysis \<Rightarrow> real list \<Rightarrow> real list"
  library_throws :: "action \<Rightarrow> string option"
  VerifiedRange_throws :: "real \<Rightarrow> real \<Rightarrow> real \<Rightarrow> string option"

subsection \<open>Helpers of the parser\<close>

text \<open>\<^verbatim>\<open>std::numeric_limits<double>::max()\<close>, the largest finite double.\<close>

definition DBL_MAX :: real where
  "DBL_MAX = (2 ^ 53 - 1) * 2 ^ 971"

text \<open>\<^verbatim>\<open>VerifiedRange<double>(min, max, value)\<close>: the constructor of the library
  either throws or holds \<open>value\<close>.\<close>

definition VerifiedRange :: "env \<Rightarrow> real \<Rightarrow> real \<Rightarrow> real \<Rightarrow> failure + real" where
  "VerifiedRange env lo hi v =
     (case VerifiedRange_throws env lo hi v of
        Some m \<Rightarrow> Inl (Exception m)
      | None \<Rightarrow> Inr v)"

text \<open>The loop \<^verbatim>\<open>do { word = *(++a); if ("}" == word) break; ... } while (true)\<close>
  of \<^verbatim>\<open>--discrete\<close>, \<^verbatim>\<open>--goodness-of-fit\<close> and \<^verbatim>\<open>--optimize\<close>: the values read
  up to the closing brace, in order, and the arguments after the brace.\<close>

fun braced_values :: "env \<Rightarrow> string list \<Rightarrow> real list \<Rightarrow> failure + (real list \<times> string list)" where
  "braced_values env [] values = Inl ArgvOverrun"
| "braced_values env (word # a) values =
     (if word = ''}'' then Inr (values, a)
      else braced_values env a (values @ [destringify_double env word]))"

text \<open>The loop of \<^verbatim>\<open>--partition\<close>: \<open>key\<close> is the argument read last. The loop ends
  at the first key that starts with two dashes; \<^verbatim>\<open>--a\<close> then steps back, so that key
  is the next argument of the outer loop.\<close>

fun partition_triples ::
  "env \<Rightarrow> string \<Rightarrow> string list \<Rightarrow> (string \<times> real \<times> real) list
     \<Rightarrow> failure + ((string \<times> real \<times> real) list \<times> string list)" where
  "partition_triples env key a triples =
     (if take 2 key = ''--'' then Inr (triples, key # a)
      else (case a of
              mn # mx # key' # a' \<Rightarrow>
                partition_triples env key' a'
                  (triples @ [(key, destringify_double env mn, destringify_double env mx)])
            | _ \<Rightarrow> Inl ArgvOverrun))"

declare partition_triples.simps [simp del]

subsection \<open>\<^verbatim>\<open>--scan\<close> and \<^verbatim>\<open>--nuisance\<close>\<close>

text \<open>Lines 239 to 255: the parameter is recorded and its prior added to the analysis.
  The prior has been built before (\<open>LogPrior_make\<close> tells whether its factory threw).\<close>

definition add_parameter ::
  "env \<Rightarrow> CommandLine \<Rightarrow> string \<Rightarrow> string \<Rightarrow> ParameterRange \<Rightarrow> string \<Rightarrow> LogPrior \<Rightarrow> string list
     \<Rightarrow> failure + (CommandLine \<times> string list)" where
  "add_parameter env st argument name rg prior_type prior' a =
     (case LogPrior_make env prior' of
        Some m \<Rightarrow> Inl (Exception m)
      | None \<Rightarrow>
          (let nuisance = (argument = ''--nuisance'') in
           case Parameters_lookup env name of
             Some m \<Rightarrow> Inl (Exception m)
           | None \<Rightarrow>
               (let d = \<lparr>parameter = name, min_value = range_min rg,
                          max_value = range_max rg, prior = prior_type\<rparr>;
                    st1 = (if nuisance
                           then st\<lparr>nuisance_parameters := nuisance_parameters st @ [d]\<rparr>
                           else st\<lparr>scan_parameters := scan_parameters st @ [d]\<rparr>)
                in case Analysis_add env (analysis st1) prior' nuisance of
                     None \<Rightarrow>
                       Inl (DoUsage (''Error in assigning '' @ prior_type
                                       @ '' prior distribution to '' @ [CHR 0x27] @ name
                                       @ [CHR 0x27] @ ''. Perhaps '' @ [CHR 0x27] @ name
                                       @ [CHR 0x27]
                                       @ '' appears twice in the list of parameters?''))
                   | Some an \<Rightarrow> Inr (st1\<lparr>analysis := an\<rparr>, a))))"

text \<open>Lines 198 to 237: the keyword read last must be \<^verbatim>\<open>--prior\<close>; then the prior
  type decides. \<open>mn\<close> and \<open>mx\<close> are the hard bounds read so far and \<open>n_sigmas\<close> the
  number of sigmas (0 when none was given).\<close>

definition scan_prior ::
  "env \<Rightarrow> CommandLine \<Rightarrow> string \<Rightarrow> string \<Rightarrow> real \<Rightarrow> real \<Rightarrow> real \<Rightarrow> string \<Rightarrow> string list
     \<Rightarrow> failure + (CommandLine \<times> string list)" where
  "scan_prior env st argument name mn mx n_sigmas keyword a =
     (if keyword \<noteq> ''--prior''
      then Inl (DoUsage (''Missing correct prior specification for '' @ [CHR 0x27] @ name
                           @ [CHR 0x27] @ ''!''))
      else (case a of
        [] \<Rightarrow> Inl ArgvOverrun
      | prior_type # a1 \<Rightarrow>
          (let rg = \<lparr>range_min = mn, range_max = mx\<rparr> in
           if prior_type = ''gaussian'' \<or> prior_type = ''log-gamma'' then
             (case a1 of
                lower_s # central_s # upper_s # a2 \<Rightarrow>
                  (let lower = destringify_double env lower_s;
                       central = destringify_double env central_s;
                       upper = destringify_double env upper_s;
                       rg' = (if n_sigmas > 0
                                 then \<lparr>range_min = max (range_min rg)
                                                        (central - n_sigmas * (central - lower)),
                                        range_max = min (range_max rg)
                                                        (central + n_sigmas * (upper - central))\<rparr>
                                 else rg)
                   in if prior_type = ''gaussian''
                      then add_parameter env st argument name rg' prior_type
                             (Gauss name rg' lower central upper) a2
                      else add_parameter env st argument name rg' prior_type
                             (LogGamma name rg' lower central upper) a2)
              | _ \<Rightarrow> Inl ArgvOverrun)
           else if prior_type = ''flat'' then
             (if n_sigmas > 0
              then Inl (DoUsage (''Can'' @ [CHR 0x27] @ ''t specify number of sigmas for flat prior''))
              else add_parameter env st argument name rg prior_type (Flat name rg) a1)
           else Inl (DoUsage (''Unknown prior distribution: '' @ prior_type)))))"

text \<open>Lines 159 to 197: the three formats
  \<^verbatim>\<open>PAR N_SIGMAS --prior\<close>, \<^verbatim>\<open>PAR MIN MAX --prior\<close> and
  \<^verbatim>\<open>PAR HARD_MIN HARD_MAX N_SIGMAS --prior\<close>.\<close>

definition scan_option ::
  "env \<Rightarrow> CommandLine \<Rightarrow> string \<Rightarrow> string list \<Rightarrow> failure + (CommandLine \<times> string list)" where
  "scan_option env st argument a =
     (case a of
        name # number_s # keyword # a1 \<Rightarrow>
          (let number = destringify_double env number_s in
           case VerifiedRange env 0 10 0 of
             Inl e \<Rightarrow> Inl e
           | Inr n0 \<Rightarrow>
               if keyword = ''--prior'' then
                 (case VerifiedRange env 0 10 number of
                    Inl e \<Rightarrow> Inl e
                  | Inr n_sigmas \<Rightarrow>
                      if n_sigmas = 0
                      then Inl (DoUsage ''number of sigmas: number expected'')
                      else scan_prior env st argument name (- DBL_MAX) DBL_MAX n_sigmas keyword a1)
               else
                 (let mn = number; mx = destringify_double env keyword in
                  case a1 of
                    [] \<Rightarrow> Inl ArgvOverrun
                  | keyword' # a2 \<Rightarrow>
                      if keyword' \<noteq> ''--prior'' then
                        (case VerifiedRange env 0 10 (destringify_double env keyword') of
                           Inl e \<Rightarrow> Inl e
                         | Inr n_sigmas \<Rightarrow>
                             if n_sigmas = 0
                             then Inl (DoUsage ''number of sigmas: number expected'')
                             else (case a2 of
                                     [] \<Rightarrow> Inl ArgvOverrun
                                   | keyword'' # a3 \<Rightarrow>
                                       scan_prior env st argument name mn mx n_sigmas keyword'' a3))
                      else scan_prior env st argument name mn mx n0 keyword' a2))
      | _ \<Rightarrow> Inl ArgvOverrun)"

subsection \<open>The other options\<close>

text \<open>Each option is a function of the state and of the arguments after the option; it
  returns the new state and the arguments left for the outer loop, or the failure
  thrown.\<close>

definition chains_option :: "env \<Rightarrow> CommandLine \<Rightarrow> string list \<Rightarrow> failure + (CommandLine \<times> string list)" where
  "chains_option env st a =
     (case a of
        [] \<Rightarrow> Inl ArgvOverrun
      | v # a1 \<Rightarrow> Inr (st\<lparr>config := (config st)\<lparr>number_of_chains := destringify_unsigned env v\<rparr>\<rparr>, a1))"

definition chunk_size_option :: "env \<Rightarrow> CommandLine \<Rightarrow> string list \<Rightarrow> failure + (CommandLine \<times> string list)" where
  "chunk_size_option env st a =
     (case a of
        [] \<Rightarrow> Inl ArgvOverrun
      | v # a1 \<Rightarrow> Inr (st\<lparr>config := (config st)\<lparr>chunk_size := destringify_unsigned env v\<rparr>\<rparr>, a1))"

definition chunks_option :: "env \<Rightarrow> CommandLine \<Rightarrow> string list \<Rightarrow> failure + (CommandLine \<times> string list)" where
  "chunks_option env st a =
     (case a of
        [] \<Rightarrow> Inl ArgvOverrun
      | v # a1 \<Rightarrow> Inr (st\<lparr>config := (config st)\<lparr>chunks := destringify_unsigned env v\<rparr>\<rparr>, a1))"

definition constraint_option :: "env \<Rightarrow> CommandLine \<Rightarrow> string list \<Rightarrow> failure + (CommandLine \<times> string list)" where
  "constraint_option env st a =
     (case a of
        [] \<Rightarrow> Inl ArgvOverrun
      | constraint_name # a1 \<Rightarrow>
          (case Constraint_make env constraint_name (global_options st) of
             Some m \<Rightarrow> Inl (Exception m)
           | None \<Rightarrow>
               Inr (st\<lparr>constraints := constraints st
                          @ [\<lparr>made_from = constraint_name,
                              made_with = global_options st\<rparr>]\<rparr>, a1)))"

definition debug_option :: "env \<Rightarrow> CommandLine \<Rightarrow> string list \<Rightarrow> failure + (CommandLine \<times> string list)" where
  "debug_option env st a = Inr (st\<lparr>log_level := ll_debug\<rparr>, a)"

definition discrete_option :: "env \<Rightarrow> CommandLine \<Rightarrow> string list \<Rightarrow> failure + (CommandLine \<times> string list)" where
  "discrete_option env st a =
     (case a of
        name # lbrace # a1 \<Rightarrow>
          if lbrace \<noteq> ''{'' then Inl (DoUsage ''Put set of discrete values in braces {}'')
          else (case braced_values env a1 [] of
                  Inl e \<Rightarrow> Inl e
                | Inr (values, a2) \<Rightarrow>
                    (let prior' = Discrete name (set values) in
                     case LogPrior_make env prior' of
                       Some m \<Rightarrow> Inl (Exception m)
                     | None \<Rightarrow>
                         (case Analysis_add env (analysis st) prior' True of
                            None \<Rightarrow>
                              Inl (DoUsage (''Unknown error in assigning discrete prior distribution to ''
                                              @ name))
                          | Some an \<Rightarrow> Inr (st\<lparr>analysis := an\<rparr>, a2))))
      | _ \<Rightarrow> Inl ArgvOverrun)"

definition fix_option :: "env \<Rightarrow> CommandLine \<Rightarrow> string list \<Rightarrow> failure + (CommandLine \<times> string list)" where
  "fix_option env st a =
     (case a of
        par_name # v # a1 \<Rightarrow>
          (let value = destringify_double env v in
           case Parameters_lookup env par_name of
             Some m \<Rightarrow> Inl (Exception m)
           | None \<Rightarrow>
               Inr (st\<lparr>analysis := (analysis st)\<lparr>fixed_values :=
                          fixed_values (analysis st) @ [(par_name, value)]\<rparr>\<rparr>, a1))
      | _ \<Rightarrow> Inl ArgvOverrun)"

definition kinematics_option :: "env \<Rightarrow> CommandLine \<Rightarrow> string list \<Rightarrow> failure + (CommandLine \<times> string list)" where
  "kinematics_option env st a =
     (case a of
        name # v # a1 \<Rightarrow>
          Inr (st\<lparr>pending_kinematics := pending_kinematics st
                     @ [(name, destringify_double env v)]\<rparr>, a1)
      | _ \<Rightarrow> Inl ArgvOverrun)"

definition global_option_option :: "env \<Rightarrow> CommandLine \<Rightarrow> string list \<Rightarrow> failure + (CommandLine \<times> string list)" where
  "global_option_option env st a =
     (case a of
        name # value # a1 \<Rightarrow>
          Inr (st\<lparr>global_options := global_options st @ [(name, value)]\<rparr>, a1)
      | _ \<Rightarrow> Inl ArgvOverrun)"

text \<open>The best-fit point is optional: without an opening brace, \<^verbatim>\<open>--a\<close> gives the
  argument back.\<close>

definition goodness_of_fit_option :: "env \<Rightarrow> CommandLine \<Rightarrow> string list \<Rightarrow> failure + (CommandLine \<times> string list)" where
  "goodness_of_fit_option env st a =
     (let st1 = st\<lparr>goodness_of_fit := True\<rparr> in
      case a of
        [] \<Rightarrow> Inl ArgvOverrun
      | lbrace # a1 \<Rightarrow>
          if lbrace \<noteq> ''{'' then Inr (st1, a)
          else (case braced_values env a1 (best_fit_point st1) of
                  Inl e \<Rightarrow> Inl e
                | Inr (values, a2) \<Rightarrow> Inr (st1\<lparr>best_fit_point := values\<rparr>, a2)))"

definition massive_mode_finding_option :: "env \<Rightarrow> CommandLine \<Rightarrow> string list \<Rightarrow> failure + (CommandLine \<times> string list)" where
  "massive_mode_finding_option env st a =
     (case a of
        [] \<Rightarrow> Inl ArgvOverrun
      | v # a1 \<Rightarrow>
          (let st1 = st\<lparr>massive_mode_finding := True,
                         massive_maximum_iterations := destringify_unsigned env v\<rparr> in
           if massive_maximum_iterations st1 = 0
           then Inl (DoUsage ''Need to specify maximum number of Minuit iterations for massive mode finding'')
           else Inr (st1, a1)))"

definition no_prerun_option :: "env \<Rightarrow> CommandLine \<Rightarrow> string list \<Rightarrow> failure + (CommandLine \<times> string list)" where
  "no_prerun_option env st a = Inr (st\<lparr>config := (config st)\<lparr>need_prerun := False\<rparr>\<rparr>, a)"

definition observable_option :: "env \<Rightarrow> CommandLine \<Rightarrow> string list \<Rightarrow> failure + (CommandLine \<times> string list)" where
  "observable_option env st a =
     (case a of
        [] \<Rightarrow> Inl ArgvOverrun
      | observable_name # a1 \<Rightarrow>
          if \<not> Observable_make env observable_name (pending_kinematics st) (global_options st)
          then Inl (DoUsage (''Unknown observable '' @ [CHR 0x27] @ observable_name @ [CHR 0x27]))
          else (case a1 of
                  mn # central # mx # a2 \<Rightarrow>
                    Inr (st\<lparr>inputs := inputs st
                               @ [\<lparr>observable = observable_name,
                                   observable_options = global_options st,
                                   kinematics = pending_kinematics st,
                                   input_min = destringify_double env mn,
                                   input_central = destringify_double env central,
                                   input_max = destringify_double env mx\<rparr>],
                             pending_kinematics := []\<rparr>, a2)
                | _ \<Rightarrow> Inl ArgvOverrun))"

text \<open>The starting point is optional, as the best-fit point is.\<close>

definition optimize_option :: "env \<Rightarrow> CommandLine \<Rightarrow> string list \<Rightarrow> failure + (CommandLine \<times> string list)" where
  "optimize_option env st a =
     (let st1 = st\<lparr>optimize := True\<rparr> in
      case a of
        [] \<Rightarrow> Inl ArgvOverrun
      | lbrace # a1 \<Rightarrow>
          if lbrace \<noteq> ''{'' then Inr (st1, a)
          else (case braced_values env a1 (starting_point st1) of
                  Inl e \<Rightarrow> Inl e
                | Inr (values, a2) \<Rightarrow> Inr (st1\<lparr>starting_point := values\<rparr>, a2)))"

definition output_option :: "env \<Rightarrow> CommandLine \<Rightarrow> string list \<Rightarrow> failure + (CommandLine \<times> string list)" where
  "output_option env st a =
     (case a of
        [] \<Rightarrow> Inl ArgvOverrun
      | v # a1 \<Rightarrow> Inr (st\<lparr>config := (config st)\<lparr>output_file := v\<rparr>\<rparr>, a1))"

definition parallel_option :: "env \<Rightarrow> CommandLine \<Rightarrow> string list \<Rightarrow> failure + (CommandLine \<times> string list)" where
  "parallel_option env st a =
     (case a of
        [] \<Rightarrow> Inl ArgvOverrun
      | v # a1 \<Rightarrow> Inr (st\<lparr>config := (config st)\<lparr>parallelize := (destringify_unsigned env v \<noteq> 0)\<rparr>\<rparr>, a1))"

text \<open>Lines 472 to 489: one partition is the list of the triples up to the next
  option; it is appended to the partitions declared so far.\<close>

definition partition_option :: "env \<Rightarrow> CommandLine \<Rightarrow> string list \<Rightarrow> failure + (CommandLine \<times> string list)" where
  "partition_option env st a =
     (case a of
        [] \<Rightarrow> Inl ArgvOverrun
      | key # a1 \<Rightarrow>
          (case partition_triples env key a1 [] of
             Inl e \<Rightarrow> Inl e
           | Inr (triples, a2) \<Rightarrow>
               Inr (st\<lparr>config := (config st)\<lparr>partitions :=
                          partitions (config st) @ [triples]\<rparr>\<rparr>, a2)))"

text \<open>Lines 491 to 500.\<close>

definition partition_index_option :: "env \<Rightarrow> CommandLine \<Rightarrow> string list \<Rightarrow> failure + (CommandLine \<times> string list)" where
  "partition_index_option env st a =
     (case a of
        [] \<Rightarrow> Inl ArgvOverrun
      | v # a1 \<Rightarrow>
          Inr (st\<lparr>partition_index := Some (destringify_unsigned env v),
                   config := (config st)\<lparr>need_main_run := False, store_prerun := True\<rparr>\<rparr>, a1))"

definition prerun_chains_per_partition_option :: "env \<Rightarrow> CommandLine \<Rightarrow> string list \<Rightarrow> failure + (CommandLine \<times> string list)" where
  "prerun_chains_per_partition_option env st a =
     (case a of
        [] \<Rightarrow> Inl ArgvOverrun
      | v # a1 \<Rightarrow> Inr (st\<lparr>config := (config st)\<lparr>prerun_chains_per_partition := destringify_unsigned env v\<rparr>\<rparr>, a1))"

definition prerun_find_modes_option :: "env \<Rightarrow> CommandLine \<Rightarrow> string list \<Rightarrow> failure + (CommandLine \<times> string list)" where
  "prerun_find_modes_option env st a = Inr (st\<lparr>config := (config st)\<lparr>find_modes := True\<rparr>\<rparr>, a)"

definition prerun_max_option :: "env \<Rightarrow> CommandLine \<Rightarrow> string list \<Rightarrow> failure + (CommandLine \<times> string list)" where
  "prerun_max_option env st a =
     (case a of
        [] \<Rightarrow> Inl ArgvOverrun
      | v # a1 \<Rightarrow> Inr (st\<lparr>config := (config st)\<lparr>prerun_iterations_max := destringify_unsigned env v\<rparr>\<rparr>, a1))"

definition prerun_min_option :: "env \<Rightarrow> CommandLine \<Rightarrow> string list \<Rightarrow> failure + (CommandLine \<times> string list)" where
  "prerun_min_option env st a =
     (case a of
        [] \<Rightarrow> Inl ArgvOverrun
      | v # a1 \<Rightarrow> Inr (st\<lparr>config := (config st)\<lparr>prerun_iterations_min := destringify_unsigned env v\<rparr>\<rparr>, a1))"

definition prerun_only_option :: "env \<Rightarrow> CommandLine \<Rightarrow> string list \<Rightarrow> failure + (CommandLine \<times> string list)" where
  "prerun_only_option env st a = Inr (st\<lparr>config := (config st)\<lparr>need_prerun := True, store_prerun := True,
                                            need_main_run := False\<rparr>\<rparr>, a)"

definition prerun_update_option :: "env \<Rightarrow> CommandLine \<Rightarrow> string list \<Rightarrow> failure + (CommandLine \<times> string list)" where
  "prerun_update_option env st a =
     (case a of
        [] \<Rightarrow> Inl ArgvOverrun
      | v # a1 \<Rightarrow> Inr (st\<lparr>config := (config st)\<lparr>prerun_iterations_update := destringify_unsigned env v\<rparr>\<rparr>, a1))"

text \<open>\<^verbatim>\<open>--print-args\<close> prints the arguments and calls \<^verbatim>\<open>abort()\<close>.\<close>

definition print_args_option :: "env \<Rightarrow> CommandLine \<Rightarrow> string list \<Rightarrow> failure + (CommandLine \<times> string list)" where
  "print_args_option env st a = Inl Abort"

definition prior_as_proposal_option :: "env \<Rightarrow> CommandLine \<Rightarrow> string list \<Rightarrow> failure + (CommandLine \<times> string list)" where
  "prior_as_proposal_option env st a =
     (case a of
        [] \<Rightarrow> Inl ArgvOverrun
      | name # a1 \<Rightarrow>
          (case Analysis_log_prior env (analysis st) name of
             None \<Rightarrow>
               Inl (DoUsage (''Define parameter '' @ name
                               @ '' and its prior before --prior-as-proposal''))
           | Some proposal' \<Rightarrow>
               Inr (st\<lparr>config := (config st)\<lparr>block_proposal_parameters :=
                          block_proposal_parameters (config st) @ [name]\<rparr>\<rparr>, a1)))"

text \<open>Lines 572 to 587.\<close>

definition proposal_option :: "env \<Rightarrow> CommandLine \<Rightarrow> string list \<Rightarrow> failure + (CommandLine \<times> string list)" where
  "proposal_option env st a =
     (case a of
        [] \<Rightarrow> Inl ArgvOverrun
      | p # a1 \<Rightarrow>
          (let st1 = st\<lparr>config := (config st)\<lparr>proposal := p\<rparr>\<rparr> in
           if proposal (config st1) = ''MultivariateStudentT'' then
             (case a1 of
                [] \<Rightarrow> Inl ArgvOverrun
              | d # a2 \<Rightarrow>
                  (let dof = destringify_double env d in
                   if dof \<le> 0
                   then Inl (DoUsage ''No (or non-positive) degree of freedom for MultivariateStudentT specified'')
                   else Inr (st1\<lparr>config := (config st1)\<lparr>student_t_degrees_of_freedom := dof\<rparr>\<rparr>,
                             a2)))
           else Inr (st1, a1)))"

text \<open>Lines 589 to 595.\<close>

definition resume_option :: "env \<Rightarrow> CommandLine \<Rightarrow> string list \<Rightarrow> failure + (CommandLine \<times> string list)" where
  "resume_option env st a =
     (case a of
        [] \<Rightarrow> Inl ArgvOverrun
      | v # a1 \<Rightarrow>
          Inr (st\<lparr>resume_file := v, config := (config st)\<lparr>need_prerun := False\<rparr>\<rparr>, a1))"

definition seed_option :: "env \<Rightarrow> CommandLine \<Rightarrow> string list \<Rightarrow> failure + (CommandLine \<times> string list)" where
  "seed_option env st a =
     (case a of
        [] \<Rightarrow> Inl ArgvOverrun
      | value # a1 \<Rightarrow>
          if value = ''time''
          then Inr (st\<lparr>config := (config st)\<lparr>seed := time_now env\<rparr>\<rparr>, a1)
          else Inr (st\<lparr>config := (config st)\<lparr>seed := destringify_ulong env value\<rparr>\<rparr>, a1))"

definition scale_reduction_option :: "env \<Rightarrow> CommandLine \<Rightarrow> string list \<Rightarrow> failure + (CommandLine \<times> string list)" where
  "scale_reduction_option env st a =
     (case a of
        [] \<Rightarrow> Inl ArgvOverrun
      | v # a1 \<Rightarrow> Inr (st\<lparr>config := (config st)\<lparr>scale_reduction := destringify_double env v\<rparr>\<rparr>, a1))"

definition store_prerun_option :: "env \<Rightarrow> CommandLine \<Rightarrow> string list \<Rightarrow> failure + (CommandLine \<times> string list)" where
  "store_prerun_option env st a = Inr (st\<lparr>config := (config st)\<lparr>store_prerun := True\<rparr>\<rparr>, a)"

definition store_observables_and_proposals_option :: "env \<Rightarrow> CommandLine \<Rightarrow> string list \<Rightarrow> failure + (CommandLine \<times> string list)" where
  "store_observables_and_proposals_option env st a = Inr (st\<lparr>config := (config st)\<lparr>store_observables_and_proposals := True\<rparr>\<rparr>, a)"

subsection \<open>The loop over the arguments\<close>

text \<open>One round of the loop of \<^verbatim>\<open>parse\<close>: \<open>argument\<close> is the current argument and
  \<open>a\<close> the arguments after it. The options are tried in the order of the source.\<close>

definition parse_option ::
  "env \<Rightarrow> CommandLine \<Rightarrow> string \<Rightarrow> string list \<Rightarrow> failure + (CommandLine \<times> string list)" where
  "parse_option env st argument a =
     (if argument = ''--scan'' \<or> argument = ''--nuisance'' then scan_option env st argument a
      else if argument = ''--chains'' then chains_option env st a
      else if argument = ''--chunk-size'' then chunk_size_option env st a
      else if argument = ''--chunks'' then chunks_option env st a
      else if argument = ''--constraint'' then constraint_option env st a
      else if argument = ''--debug'' then debug_option env st a
      else if argument = ''--discrete'' then discrete_option env st a
      else if argument = ''--fix'' then fix_option env st a
      else if argument = ''--kinematics'' then kinematics_option env st a
      else if argument = ''--global-option'' then global_option_option env st a
      else if argument = ''--goodness-of-fit'' then goodness_of_fit_option env st a
      else if argument = ''--massive-mode-finding'' then massive_mode_finding_option env st a
      else if argument = ''--no-prerun'' then no_prerun_option env st a
      else if argument = ''--observable'' then observable_option env st a
      else if argument = ''--optimize'' then optimize_option env st a
      else if argument = ''--output'' then output_option env st a
      else if argument = ''--parallel'' then parallel_option env st a
      else if argument = ''--partition'' then partition_option env st a
      else if argument = ''--partition-index'' then partition_index_option env st a
      else if argument = ''--prerun-chains-per-partition'' then prerun_chains_per_partition_option env st a
      else if argument = ''--prerun-find-modes'' then prerun_find_modes_option env st a
      else if argument = ''--prerun-max'' then prerun_max_option env st a
      else if argument = ''--prerun-min'' then prerun_min_option env st a
      else if argument = ''--prerun-only'' then prerun_only_option env st a
      else if argument = ''--prerun-update'' then prerun_update_option env st a
      else if argument = ''--print-args'' then print_args_option env st a
      else if argument = ''--prior-as-proposal'' then prior_as_proposal_option env st a
      else if argument = ''--proposal'' then proposal_option env st a
      else if argument = ''--resume'' then resume_option env st a
      else if argument = ''--seed'' then seed_option env st a
      else if argument = ''--scale-reduction'' then scale_reduction_option env st a
      else if argument = ''--store-prerun'' then store_prerun_option env st a
      else if argument = ''--store-observables-and-proposals'' then store_observables_and_proposals_option env st a
      else Inl (DoUsage (''Unknown command line argument: '' @ argument)))"

subsection \<open>Every option leaves no more arguments than it was given\<close>

text \<open>A property \<open>P\<close> of the result of every option is a property of the round.\<close>

lemma parse_option_cases:
  assumes "argument = ''--scan'' \<or> argument = ''--nuisance'' \<Longrightarrow> P (scan_option env st argument a)"
    and "argument = ''--chains'' \<Longrightarrow> P (chains_option env st a)"
    and "argument = ''--chunk-size'' \<Longrightarrow> P (chunk_size_option env st a)"
    and "argument = ''--chunks'' \<Longrightarrow> P (chunks_option env st a)"
    and "argument = ''--constraint'' \<Longrightarrow> P (constraint_option env st a)"
    and "argument = ''--debug'' \<Longrightarrow> P (debug_option env st a)"
    and "argument = ''--discrete'' \<Longrightarrow> P (discrete_option env st a)"
    and "argument = ''--fix'' \<Longrightarrow> P (fix_option env st a)"
    and "argument = ''--kinematics'' \<Longrightarrow> P (kinematics_option env st a)"
    and "argument = ''--global-option'' \<Longrightarrow> P (global_option_option env st a)"
    and "argument = ''--goodness-of-fit'' \<Longrightarrow> P (goodness_of_fit_option env st a)"
    and "argument = ''--massive-mode-finding'' \<Longrightarrow> P (massive_mode_finding_option env st a)"
    and "argument = ''--no-prerun'' \<Longrightarrow> P (no_prerun_option env st a)"
    and "argument = ''--observable'' \<Longrightarrow> P (observable_option env st a)"
    and "argument = ''--optimize'' \<Longrightarrow> P (optimize_option env st a)"
    and "argument = ''--output'' \<Longrightarrow> P (output_option env st a)"
    and "argument = ''--parallel'' \<Longrightarrow> P (parallel_option env st a)"
    and "argument = ''--partition'' \<Longrightarrow> P (partition_option env st a)"
    and "argument = ''--partition-index'' \<Longrightarrow> P (partition_index_option env st a)"
    and "argument = ''--prerun-chains-per-partition'' \<Longrightarrow> P (prerun_chains_per_partition_option env st a)"
    and "argument = ''--prerun-find-modes'' \<Longrightarrow> P (prerun_find_modes_option env st a)"
    and "argument = ''--prerun-max'' \<Longrightarrow> P (prerun_max_option env st a)"
    and "argument = ''--prerun-min'' \<Longrightarrow> P (prerun_min_option env st a)"
    and "argument = ''--prerun-only'' \<Longrightarrow> P (prerun_only_option env st a)"
    and "argument = ''--prerun-update'' \<Longrightarrow> P (prerun_update_option env st a)"
    and "argument = ''--print-args'' \<Longrightarrow> P (print_args_option env st a)"
    and "argument = ''--prior-as-proposal'' \<Longrightarrow> P (prior_as_proposal_option env st a)"
    and "argument = ''--proposal'' \<Longrightarrow> P (proposal_option env st a)"
    and "argument = ''--resume'' \<Longrightarrow> P (resume_option env st a)"
    and "argument = ''--seed'' \<Longrightarrow> P (seed_option env st a)"
    and "argument = ''--scale-reduction'' \<Longrightarrow> P (scale_reduction_option env st a)"
    and "argument = ''--store-prerun'' \<Longrightarrow> P (store_prerun_option env st a)"
    and "argument = ''--store-observables-and-proposals'' \<Longrightarrow> P (store_observables_and_proposals_option env st a)"
    and "P (Inl (DoUsage (''Unknown command line argument: '' @ argument)))"
  shows "P (parse_option env st argument a)"
proof -
  have step: "\<And>c x y. (c \<Longrightarrow> P x) \<Longrightarrow> (\<not> c \<Longrightarrow> P y) \<Longrightarrow> P (if c then x else y)"
    by simp
  show ?thesis
    unfolding parse_option_def by (intro step) (erule assms | rule assms)+
qed

lemma braced_values_length:
  "braced_values env a vs = Inr (vs', rest) \<Longrightarrow> length rest \<le> length a"
proof (induction env a vs rule: braced_values.induct)
  case (1 env vs)
  then show ?case by simp
next
  case (2 env word a vs)
  show ?case
  proof (cases "word = ''}''")
    case True
    with "2.prems" show ?thesis by auto
  next
    case False
    with "2.prems" have "braced_values env a (vs @ [destringify_double env word]) = Inr (vs', rest)"
      by simp
    with "2.IH" [OF False] have "length rest \<le> length a" .
    then show ?thesis by simp
  qed
qed

lemma partition_triples_length:
  "partition_triples env key a triples = Inr (triples', rest) \<Longrightarrow> length rest \<le> Suc (length a)"
proof (induction env key a triples rule: partition_triples.induct)
  case (1 env key a triples)
  show ?case
  proof (cases "take 2 key = ''--''")
    case True
    with "1.prems" have "rest = key # a" by (simp add: partition_triples.simps [of env key])
    then show ?thesis by simp
  next
    case False
    with "1.prems" obtain mn mx key' a' where a: "a = mn # mx # key' # a'"
      by (auto simp: partition_triples.simps [of env key] split: list.splits)
    with False "1.prems" have
      "partition_triples env key' a'
         (triples @ [(key, destringify_double env mn, destringify_double env mx)]) = Inr (triples', rest)"
      by (simp add: partition_triples.simps [of env key])
    with "1.IH" [OF False a] have "length rest \<le> Suc (length a')" by simp
    with a show ?thesis by simp
  qed
qed

lemma add_parameter_length:
  "add_parameter env st argument name rg prior_type prior' a = Inr (st', rest)
     \<Longrightarrow> length rest \<le> length a"
  by (auto simp: add_parameter_def Let_def split: option.splits if_splits)

lemma scan_prior_length:
  "scan_prior env st argument name mn mx n_sigmas keyword a = Inr (st', rest)
     \<Longrightarrow> length rest \<le> length a"
  by (auto simp: scan_prior_def Let_def split: list.splits if_splits
           dest!: add_parameter_length)

lemma scan_option_length:
  "scan_option env st argument a = Inr (st', rest) \<Longrightarrow> length rest \<le> length a"
  by (auto simp: scan_option_def Let_def split: list.splits if_splits sum.splits
           dest!: scan_prior_length)

lemma chains_option_length:
  "chains_option env st a = Inr (st', rest) \<Longrightarrow> length rest \<le> length a"
  by (auto simp: chains_option_def Let_def split: list.splits option.splits if_splits sum.splits
           dest!: braced_values_length partition_triples_length)

lemma chunk_size_option_length:
  "chunk_size_option env st a = Inr (st', rest) \<Longrightarrow> length rest \<le> length a"
  by (auto simp: chunk_size_option_def Let_def split: list.splits option.splits if_splits sum.splits
           dest!: braced_values_length partition_triples_length)

lemma chunks_option_length:
  "chunks_option env st a = Inr (st', rest) \<Longrightarrow> length rest \<le> length a"
  by (auto simp: chunks_option_def Let_def split: list.splits option.splits if_splits sum.splits
           dest!: braced_values_length partition_triples_length)

lemma constraint_option_length:
  "constraint_option env st a = Inr (st', rest) \<Longrightarrow> length rest \<le> length a"
  by (auto simp: constraint_option_def Let_def split: list.splits option.splits if_splits sum.splits
           dest!: braced_values_length partition_triples_length)

lemma debug_option_length:
  "debug_option env st a = Inr (st', rest) \<Longrightarrow> length rest \<le> length a"
  by (auto simp: debug_option_def Let_def split: list.splits option.splits if_splits sum.splits
           dest!: braced_values_length partition_triples_length)

lemma discrete_option_length:
  "discrete_option env st a = Inr (st', rest) \<Longrightarrow> length rest \<le> length a"
  by (auto simp: discrete_option_def Let_def split: list.splits option.splits if_splits sum.splits
           dest!: braced_values_length partition_triples_length)

lemma fix_option_length:
  "fix_option env st a = Inr (st', rest) \<Longrightarrow> length rest \<le> length a"
  by (auto simp: fix_option_def Let_def split: list.splits option.splits if_splits sum.splits
           dest!: braced_values_length partition_triples_length)

lemma kinematics_option_length:
  "kinematics_option env st a = Inr (st', rest) \<Longrightarrow> length rest \<le> length a"
  by (auto simp: kinematics_option_def Let_def split: list.splits option.splits if_splits sum.splits
           dest!: braced_values_length partition_triples_length)

lemma global_option_option_length:
  "global_option_option env st a = Inr (st', rest) \<Longrightarrow> length rest \<le> length a"
  by (auto simp: global_option_option_def Let_def split: list.splits option.splits if_splits sum.splits
           dest!: braced_values_length partition_triples_length)

lemma goodness_of_fit_option_length:
  "goodness_of_fit_option env st a = Inr (st', rest) \<Longrightarrow> length rest \<le> length a"
  by (auto simp: goodness_of_fit_option_def Let_def split: list.splits option.splits if_splits sum.splits
           dest!: braced_values_length partition_triples_length)

lemma massive_mode_finding_option_length:
  "massive_mode_finding_option env st a = Inr (st', rest) \<Longrightarrow> length rest \<le> length a"
  by (auto simp: massive_mode_finding_option_def Let_def split: list.splits option.splits if_splits sum.splits
           dest!: braced_values_length partition_triples_length)

lemma no_prerun_option_length:
  "no_prerun_option env st a = Inr (st', rest) \<Longrightarrow> length rest \<le> length a"
  by (auto simp: no_prerun_option_def Let_def split: list.splits option.splits if_splits sum.splits
           dest!: braced_values_length partition_triples_length)

lemma observable_option_length:
  "observable_option env st a = Inr (st', rest) \<Longrightarrow> length rest \<le> length a"
  by (auto simp: observable_option_def Let_def split: list.splits option.splits if_splits sum.splits
           dest!: braced_values_length partition_triples_length)

lemma optimize_option_length:
  "optimize_option env st a = Inr (st', rest) \<Longrightarrow> length rest \<le> length a"
  by (auto simp: optimize_option_def Let_def split: list.splits option.splits if_splits sum.splits
           dest!: braced_values_length partition_triples_length)

lemma output_option_length:
  "output_option env st a = Inr (st', rest) \<Longrightarrow> length rest \<le> length a"
  by (auto simp: output_option_def Let_def split: list.splits option.splits if_splits sum.splits
           dest!: braced_values_length partition_triples_length)

lemma parallel_option_length:
  "parallel_option env st a = Inr (st', rest) \<Longrightarrow> length rest \<le> length a"
  by (auto simp: parallel_option_def Let_def split: list.splits option.splits if_splits sum.splits
           dest!: braced_values_length partition_triples_length)

lemma partition_option_length:
  "partition_option env st a = Inr (st', rest) \<Longrightarrow> length rest \<le> length a"
  by (auto simp: partition_option_def Let_def split: list.splits option.splits if_splits sum.splits
           dest!: braced_values_length partition_triples_length)

lemma partition_index_option_length:
  "partition_index_option env st a = Inr (st', rest) \<Longrightarrow> length rest \<le> length a"
  by (auto simp: partition_index_option_def Let_def split: list.splits option.splits if_splits sum.splits
           dest!: braced_values_length partition_triples_length)

lemma prerun_chains_per_partition_option_length:
  "prerun_chains_per_partition_option env st a = Inr (st', rest) \<Longrightarrow> length rest \<le> length a"
  by (auto simp: prerun_chains_per_partition_option_def Let_def split: list.splits option.splits if_splits sum.splits
           dest!: braced_values_length partition_triples_length)

lemma prerun_find_modes_option_length:
  "prerun_find_modes_option env st a = Inr (st', rest) \<Longrightarrow> length rest \<le> length a"
  by (auto simp: prerun_find_modes_option_def Let_def split: list.splits option.splits if_splits sum.splits
           dest!: braced_values_length partition_triples_length)

lemma prerun_max_option_length:
  "prerun_max_option env st a = Inr (st', rest) \<Longrightarrow> length rest \<le> length a"
  by (auto simp: prerun_max_option_def Let_def split: list.splits option.splits if_splits sum.splits
           dest!: braced_values_length partition_triples_length)

lemma prerun_min_option_length:
  "prerun_min_option env st a = Inr (st', rest) \<Longrightarrow> length rest \<le> length a"
  by (auto simp: prerun_min_option_def Let_def split: list.splits option.splits if_splits sum.splits
           dest!: braced_values_length partition_triples_length)

lemma prerun_only_option_length:
  "prerun_only_option env st a = Inr (st', rest) \<Longrightarrow> length rest \<le> length a"
  by (auto simp: prerun_only_option_def Let_def split: list.splits option.splits if_splits sum.splits
           dest!: braced_values_length partition_triples_length)

lemma prerun_update_option_length:
  "prerun_update_option env st a = Inr (st', rest) \<Longrightarrow> length rest \<le> length a"
  by (auto simp: prerun_update_option_def Let_def split: list.splits option.splits if_splits sum.splits
           dest!: braced_values_length partition_triples_length)

lemma print_args_option_length:
  "print_args_option env st a = Inr (st', rest) \<Longrightarrow> length rest \<le> length a"
  by (auto simp: print_args_option_def Let_def split: list.splits option.splits if_splits sum.splits
           dest!: braced_values_length partition_triples_length)

lemma prior_as_proposal_option_length:
  "prior_as_proposal_option env st a = Inr (st', rest) \<Longrightarrow> length rest \<le> length a"
  by (auto simp: prior_as_proposal_option_def Let_def split: list.splits option.splits if_splits sum.splits
           dest!: braced_values_length partition_triples_length)

lemma proposal_option_length:
  "proposal_option env st a = Inr (st', rest) \<Longrightarrow> length rest \<le> length a"
  by (auto simp: proposal_option_def Let_def split: list.splits option.splits if_splits sum.splits
           dest!: braced_values_length partition_triples_length)

lemma resume_option_length:
  "resume_option env st a = Inr (st', rest) \<Longrightarrow> length rest \<le> length a"
  by (auto simp: resume_option_def Let_def split: list.splits option.splits if_splits sum.splits
           dest!: braced_values_length partition_triples_length)

lemma seed_option_length:
  "seed_option env st a = Inr (st', rest) \<Longrightarrow> length rest \<le> length a"
  by (auto simp: seed_option_def Let_def split: list.splits option.splits if_splits sum.splits
           dest!: braced_values_length partition_triples_length)

lemma scale_reduction_option_length:
  "scale_reduction_option env st a = Inr (st', rest) \<Longrightarrow> length rest \<le> length a"
  by (auto simp: scale_reduction_option_def Let_def split: list.splits option.splits if_splits sum.splits
           dest!: braced_values_length partition_triples_length)

lemma store_prerun_option_length:
  "store_prerun_option env st a = Inr (st', rest) \<Longrightarrow> length rest \<le> length a"
  by (auto simp: store_prerun_option_def Let_def split: list.splits option.splits if_splits sum.splits
           dest!: braced_values_length partition_triples_length)

lemma store_observables_and_proposals_option_length:
  "store_observables_and_proposals_option env st a = Inr (st', rest) \<Longrightarrow> length rest \<le> length a"
  by (auto simp: store_observables_and_proposals_option_def Let_def split: list.splits option.splits if_splits sum.splits
           dest!: braced_values_length partition_triples_length)

lemmas option_length =
  scan_option_length chains_option_length chunk_size_option_length chunks_option_length constraint_option_length debug_option_length discrete_option_length fix_option_length kinematics_option_length global_option_option_length goodness_of_fit_option_length massive_mode_finding_option_length no_prerun_option_length observable_option_length optimize_option_length output_option_length parallel_option_length partition_option_length partition_index_option_length prerun_chains_per_partition_option_length prerun_find_modes_option_length prerun_max_option_length prerun_min_option_length prerun_only_option_length prerun_update_option_length print_args_option_length prior_as_proposal_option_length proposal_option_length resume_option_length seed_option_length scale_reduction_option_length store_prerun_option_length store_observables_and_proposals_option_length

lemma parse_option_length:
  "parse_option env st argument a = Inr (st', rest) \<Longrightarrow> length rest \<le> length a"
proof -
  have "parse_option env st argument a = Inr (st', rest) \<longrightarrow> length rest \<le> length a"
    by (rule parse_option_cases
          [where P = "\<lambda>r. r = Inr (st', rest) \<longrightarrow> length rest \<le> length a"])
       ((rule impI, erule option_length) | simp)+
  then show "parse_option env st argument a = Inr (st', rest) \<Longrightarrow> length rest \<le> length a"
    by simp
qed

text \<open>The loop \<^verbatim>\<open>for (a = argv + 1; a != a_end; ++a)\<close>.\<close>

function parse_loop :: "env \<Rightarrow> CommandLine \<Rightarrow> string list \<Rightarrow> failure + CommandLine" where
  "parse_loop env st [] = Inr st"
| "parse_loop env st (argument # a) =
     (case parse_option env st argument a of
        Inl e \<Rightarrow> Inl e
      | Inr (st', rest) \<Rightarrow> parse_loop env st' rest)"
  by pat_completeness auto
termination
  by (relation "measure (\<lambda>(env, st, a). length a)")
     (auto dest!: parse_option_length)

subsection \<open>\<^verbatim>\<open>CommandLine\<close>: constructor and \<^verbatim>\<open>parse\<close>\<close>

text \<open>The constructor starts from \<^verbatim>\<open>Config::Quick()\<close> and assigns five of its
  fields. It leaves \<^verbatim>\<open>goodness_of_fit\<close> uninitialised; the containers, the strings
  and the pointer \<^verbatim>\<open>partition_index\<close> start empty.\<close>

definition CommandLine_new :: "env \<Rightarrow> CommandLine" where
  "CommandLine_new env =
     \<lparr>global_options = [],
      analysis = \<lparr>parameter_descriptions = [], fixed_values = []\<rparr>,
      config = (Config_Quick env)\<lparr>number_of_chains := 4, need_prerun := True,
                 chunk_size := 1000, parallelize := True,
                 use_strict_rvalue_definition := True\<rparr>,
      scan_parameters = [],
      nuisance_parameters = [],
      inputs = [],
      constraints = [],
      creator = [],
      partition_index = None,
      resume_file = [],
      massive_mode_finding = False,
      massive_maximum_iterations = 2000,
      optimize = False,
      starting_point = [],
      goodness_of_fit = uninitialized_goodness_of_fit env,
      best_fit_point = [],
      log_level = ll_informational,
      pending_kinematics = []\<rparr>"

text \<open>\<^verbatim>\<open>parse(argc, argv)\<close>: the creator string is the command line, the words
  joined by blanks; then the loop runs over the arguments after \<^verbatim>\<open>argv[0]\<close>.\<close>

definition parse :: "env \<Rightarrow> CommandLine \<Rightarrow> string list \<Rightarrow> failure + CommandLine" where
  "parse env st argv =
     (case argv of
        [] \<Rightarrow> Inl ArgvOverrun
      | argv0 # args \<Rightarrow>
          parse_loop env
            (st\<lparr>log_level := ll_informational,
                creator := foldl (\<lambda>c s. c @ '' '' @ s) argv0 args\<rparr>)
            args)"

subsection \<open>\<^verbatim>\<open>main\<close>\<close>

text \<open>The handlers of \<^verbatim>\<open>main\<close> return \<^verbatim>\<open>EXIT_FAILURE\<close>; the exception of
  reading past the arguments is caught by \<^verbatim>\<open>catch (...)\<close>. \<^verbatim>\<open>abort()\<close> does not
  reach the handlers.\<close>

definition failed :: "action list \<Rightarrow> failure \<Rightarrow> outcome" where
  "failed acts e =
     \<lparr>exit_status = (case e of
                        DoUsage m \<Rightarrow> EXIT_FAILURE
                      | Exception m \<Rightarrow> EXIT_FAILURE
                      | UnknownException \<Rightarrow> EXIT_FAILURE
                      | ArgvOverrun \<Rightarrow> EXIT_FAILURE
                      | Abort \<Rightarrow> Crashed),
      performed = acts,
      caught = Some e\<rparr>"

definition succeeded :: "action list \<Rightarrow> outcome" where
  "succeeded acts = \<lparr>exit_status = EXIT_SUCCESS, performed = acts, caught = None\<rparr>"

text \<open>Lines 709 to 747: the optimization. Without a starting point, one is sampled from
  the priors of the analysis.\<close>

definition optimization :: "env \<Rightarrow> CommandLine \<Rightarrow> outcome" where
  "optimization env inst =
     (let ana = analysis inst;
          point = (if starting_point inst = []
                   then map (\<lambda>d. LogPrior_sample env (fst d)) (parameter_descriptions ana)
                   else starting_point inst)
      in if length point \<noteq> length (parameter_descriptions ana)
         then failed []
                (DoUsage (''Starting point size of'' @ stringify_size env (length point)
                            @ '' doesn'' @ [CHR 0x27] @ ''t match with analysis size of ''
                            @ stringify_size env (length (parameter_descriptions ana))))
         else (case library_throws env (OptimizeMinuit point) of
                 Some m \<Rightarrow> failed [OptimizeMinuit point] (Exception m)
               | None \<Rightarrow>
                   (let ret = minuit_parameters env ana point in
                    if goodness_of_fit inst \<and> best_fit_point inst = []
                    then (case library_throws env (GoodnessOfFit ret None) of
                            Some m \<Rightarrow>
                              failed [OptimizeMinuit point, GoodnessOfFit ret None] (Exception m)
                          | None \<Rightarrow> succeeded [OptimizeMinuit point, GoodnessOfFit ret None])
                    else succeeded [OptimizeMinuit point])))"

text \<open>Lines 750 to 755: the goodness of fit at the point the user gave.\<close>

definition goodness_of_fit_only :: "env \<Rightarrow> CommandLine \<Rightarrow> outcome" where
  "goodness_of_fit_only env inst =
     (let act = GoodnessOfFit (best_fit_point inst) (Some (output_file (config inst))) in
      case library_throws env act of
        Some m \<Rightarrow> failed [act] (Exception m)
      | None \<Rightarrow> succeeded [act])"

text \<open>Lines 757 to 767: with a partition index, the partitions of the configuration are
  replaced by the one at that index. \<^verbatim>\<open>temp.at(*i)\<close> throws
  \<^verbatim>\<open>std::out_of_range\<close> for an index past the end, which only the handler
  \<^verbatim>\<open>catch (...)\<close> of \<^verbatim>\<open>main\<close> catches.\<close>

definition select_partition :: "env \<Rightarrow> CommandLine \<Rightarrow> failure + Config" where
  "select_partition env inst =
     (case partition_index inst of
        None \<Rightarrow> Inr (config inst)
      | Some i \<Rightarrow>
          (let c = config inst in
           if partitions c = []
           then Inl (DoUsage (''Can'' @ [CHR 0x27] @ ''t select partition ''
                                @ stringify_unsigned env i @ '' from no partitions!''))
           else (let temp = partitions c in
                 if unat i < length temp
                 then Inr (c\<lparr>partitions := [] @ [temp ! unat i]\<rparr>)
                 else Inl UnknownException)))"

text \<open>Lines 769 to 783: the sampler is built from the analysis and the configuration;
  then either the mode finding or the run.\<close>

definition sampling :: "env \<Rightarrow> CommandLine \<Rightarrow> Config \<Rightarrow> outcome" where
  "sampling env inst c =
     (let sampler = ConstructSampler (analysis inst) c in
      case library_throws env sampler of
        Some m \<Rightarrow> failed [sampler] (Exception m)
      | None \<Rightarrow>
          if massive_mode_finding inst then
            (let options = (OptimizationOptions_Defaults env)
                             \<lparr>algorithm := ''minimize'',
                              maximum_iterations := massive_maximum_iterations inst,
                              mcmc_pre_run := need_prerun c,
                              strategy_level := 0\<rparr>
             in case library_throws env (MassiveModeFinding options) of
                  Some m \<Rightarrow> failed [sampler, MassiveModeFinding options] (Exception m)
                | None \<Rightarrow> succeeded [sampler, MassiveModeFinding options])
          else (case library_throws env SamplerRun of
                  Some m \<Rightarrow> failed [sampler, SamplerRun] (Exception m)
                | None \<Rightarrow> succeeded [sampler, SamplerRun]))"

text \<open>What \<^verbatim>\<open>main\<close> does once the command line is parsed.\<close>

definition run :: "env \<Rightarrow> CommandLine \<Rightarrow> outcome" where
  "run env inst =
     (if inputs inst = [] \<and> constraints inst = []
      then failed [] (DoUsage ''No inputs, constraints nor build output specified'')
      else if optimize inst then optimization env inst
      else if goodness_of_fit inst then goodness_of_fit_only env inst
      else (case select_partition env inst of
              Inl e \<Rightarrow> failed [] e
            | Inr c \<Rightarrow> sampling env inst c))"

definition main :: "env \<Rightarrow> string list \<Rightarrow> outcome" where
  "main env argv =
     (case parse env (CommandLine_new env) argv of
        Inl e \<Rightarrow> failed [] e
      | Inr inst \<Rightarrow> run env inst)"

subsection \<open>The sampler among the actions\<close>

text \<open>The actions that build or use the \<^verbatim>\<open>MarkovChainSampler\<close>.\<close>

fun uses_sampler :: "action \<Rightarrow> bool" where
  "uses_sampler (ConstructSampler an c) = True"
| "uses_sampler (MassiveModeFinding options) = True"
| "uses_sampler SamplerRun = True"
| "uses_sampler (OptimizeMinuit point) = False"
| "uses_sampler (GoodnessOfFit point file) = False"

text \<open>A partition index in the state comes with a disabled main run and stored prerun
  data: an invariant of the loop.\<close>

definition index_implies_prerun_output :: "CommandLine \<Rightarrow> bool" where
  "index_implies_prerun_output st =
     (partition_index st = None \<or> (\<not> need_main_run (config st) \<and> store_prerun (config st)))"

subsection \<open>The words of a partition\<close>

text \<open>The words that declare a partition on the command line, triple after triple, and
  the triple read from three of them.\<close>

definition partition_words :: "(string \<times> string \<times> string) list \<Rightarrow> string list" where
  "partition_words ts = concat (map (\<lambda>(name, mn, mx). [name, mn, mx]) ts)"

definition read_triple :: "env \<Rightarrow> string \<times> string \<times> string \<Rightarrow> string \<times> real \<times> real" where
  "read_triple env = (\<lambda>(name, mn, mx). (name, destringify_double env mn, destringify_double env mx))"

text \<open>The words that declare several partitions, one \<^verbatim>\<open>--partition\<close> after the
  other.\<close>

definition declared_words :: "(string \<times> string \<times> string) list list \<Rightarrow> string list" where
  "declared_words ps = concat (map (\<lambda>ts. ''--partition'' # partition_words ts) ps)"

subsection \<open>An example library\<close>

text \<open>A library for the examples: a few numerals are read, nothing throws but
  \<^verbatim>\<open>VerifiedRange\<close> outside of its range, every parameter, constraint and observable is
  known, the optimizer halves the starting point, and numbers are printed in unary.\<close>

definition example_config :: Config where
  "example_config =
     \<lparr>number_of_chains = 1, need_prerun = True, need_main_run = True, chunk_size = 100,
      chunks = 10, parallelize = False, use_strict_rvalue_definition = False,
      output_file = [], partitions = [], store_prerun = False,
      store_observables_and_proposals = False, prerun_chains_per_partition = 1,
      find_modes = False, prerun_iterations_max = 1000, prerun_iterations_min = 100,
      prerun_iterations_update = 100, block_proposal_parameters = [],
      proposal = ''MultivariateGaussian'', student_t_degrees_of_freedom = 1,
      seed = 0, scale_reduction = 1\<rparr>"

definition example_double :: "string \<Rightarrow> real" where
  "example_double s =
     (if s = ''1'' then 1 else if s = ''2'' then 2 else if s = ''3'' then 3
      else if s = ''4'' then 4 else if s = ''5'' then 5 else if s = ''-1'' then - 1
      else if s = ''10'' then 10 else if s = ''11'' then 11 else 0)"

definition example_unsigned :: "string \<Rightarrow> unsigned" where
  "example_unsigned s =
     (if s = ''1'' then 1 else if s = ''2'' then 2 else if s = ''3'' then 3
      else if s = ''4'' then 4 else if s = ''5'' then 5 else 0)"

definition example_env :: env where
  "example_env =
     \<lparr>destringify_double = example_double,
      destringify_unsigned = example_unsigned,
      destringify_ulong = (\<lambda>s. 0),
      stringify_unsigned = (\<lambda>i. replicate (unat i) CHR ''|''),
      stringify_size = (\<lambda>n. replicate n CHR ''|''),
      Config_Quick = example_config,
      uninitialized_goodness_of_fit = False,
      Parameters_lookup = (\<lambda>name. None),
      LogPrior_make = (\<lambda>p. None),
      Analysis_add = (\<lambda>an p nuisance.
         Some (an\<lparr>parameter_descriptions := parameter_descriptions an @ [(p, nuisance)]\<rparr>)),
      Analysis_log_prior = (\<lambda>an name. None),
      Constraint_make = (\<lambda>name opts. None),
      Observable_make = (\<lambda>name k opts. True),
      time_now = 0,
      LogPrior_sample = (\<lambda>p. 0),
      OptimizationOptions_Defaults =
        \<lparr>algorithm = ''migrad'', maximum_iterations = 8000, mcmc_pre_run = True,
         strategy_level = 1\<rparr>,
      minuit_parameters = (\<lambda>an point. map (\<lambda>x. x / 2) point),
      library_throws = (\<lambda>act. None),
      VerifiedRange_throws = (\<lambda>lo hi v. if v < lo \<or> hi < v then Some ''out of range'' else None)\<rparr>"

text \<open>A parsed command line with one constraint.\<close>

definition example_inst :: CommandLine where
  "example_inst =
     (CommandLine_new example_env)
       \<lparr>constraints := [\<lparr>made_from = ''c'', made_with = []\<rparr>]\<rparr>"

section \<open>Properties of the parser\<close>

subsection \<open>What an option leaves of the arguments\<close>

text \<open>The arguments an option leaves are among those it was given.\<close>

lemma braced_values_rest:
  "braced_values env a vs = Inr (vs', rest) \<Longrightarrow> set rest \<subseteq> set a"
proof (induction env a vs rule: braced_values.induct)
  case (1 env vs)
  then show ?case by simp
next
  case (2 env word a vs)
  show ?case
  proof (cases "word = ''}''")
    case True
    with "2.prems" show ?thesis by auto
  next
    case False
    with "2.prems" have "braced_values env a (vs @ [destringify_double env word]) = Inr (vs', rest)"
      by simp
    with "2.IH" [OF False] have "set rest \<subseteq> set a" .
    then show ?thesis by auto
  qed
qed

lemma partition_triples_rest:
  "partition_triples env key a triples = Inr (triples', rest) \<Longrightarrow> set rest \<subseteq> insert key (set a)"
proof (induction env key a triples rule: partition_triples.induct)
  case (1 env key a triples)
  show ?case
  proof (cases "take 2 key = ''--''")
    case True
    with "1.prems" have "rest = key # a" by (simp add: partition_triples.simps [of env key])
    then show ?thesis by simp
  next
    case False
    with "1.prems" obtain mn mx key' a' where a: "a = mn # mx # key' # a'"
      by (auto simp: partition_triples.simps [of env key] split: list.splits)
    with False "1.prems" have
      "partition_triples env key' a'
         (triples @ [(key, destringify_double env mn, destringify_double env mx)]) = Inr (triples', rest)"
      by (simp add: partition_triples.simps [of env key])
    with "1.IH" [OF False a] have "set rest \<subseteq> insert key' (set a')" by simp
    with a show ?thesis by auto
  qed
qed

lemma add_parameter_rest:
  "add_parameter env st argument name rg prior_type prior' a = Inr (st', rest) \<Longrightarrow> rest = a"
  by (auto simp: add_parameter_def Let_def split: option.splits if_splits)

lemma scan_prior_rest:
  "scan_prior env st argument name mn mx n_sigmas keyword a = Inr (st', rest)
     \<Longrightarrow> set rest \<subseteq> set a"
  by (auto simp: scan_prior_def Let_def split: list.splits if_splits
           dest!: add_parameter_rest)

lemma scan_option_rest:
  "scan_option env st argument a = Inr (st', rest) \<Longrightarrow> set rest \<subseteq> set a"
  by (auto simp: scan_option_def Let_def split: list.splits if_splits sum.splits
           dest!: scan_prior_rest)

lemma chains_option_rest:
  "chains_option env st a = Inr (st', rest) \<Longrightarrow> set rest \<subseteq> set a"
  by (auto simp: chains_option_def Let_def split: list.splits option.splits if_splits sum.splits
           dest!: braced_values_rest partition_triples_rest)

lemma chunk_size_option_rest:
  "chunk_size_option env st a = Inr (st', rest) \<Longrightarrow> set rest \<subseteq> set a"
  by (auto simp: chunk_size_option_def Let_def split: list.splits option.splits if_splits sum.splits
           dest!: braced_values_rest partition_triples_rest)

lemma chunks_option_rest:
  "chunks_option env st a = Inr (st', rest) \<Longrightarrow> set rest \<subseteq> set a"
  by (auto simp: chunks_option_def Let_def split: list.splits option.splits if_splits sum.splits
           dest!: braced_values_rest partition_triples_rest)

lemma constraint_option_rest:
  "constraint_option env st a = Inr (st', rest) \<Longrightarrow> set rest \<subseteq> set a"
  by (auto simp: constraint_option_def Let_def split: list.splits option.splits if_splits sum.splits
           dest!: braced_values_rest partition_triples_rest)

lemma debug_option_rest:
  "debug_option env st a = Inr (st', rest) \<Longrightarrow> set rest \<subseteq> set a"
  by (auto simp: debug_option_def Let_def split: list.splits option.splits if_splits sum.splits
           dest!: braced_values_rest partition_triples_rest)

lemma discrete_option_rest:
  "discrete_option env st a = Inr (st', rest) \<Longrightarrow> set rest \<subseteq> set a"
  by (auto simp: discrete_option_def Let_def split: list.splits option.splits if_splits sum.splits
           dest!: braced_values_rest partition_triples_rest)

lemma fix_option_rest:
  "fix_option env st a = Inr (st', rest) \<Longrightarrow> set rest \<subseteq> set a"
  by (auto simp: fix_option_def Let_def split: list.splits option.splits if_splits sum.splits
           dest!: braced_values_rest partition_triples_rest)

lemma kinematics_option_rest:
  "kinematics_option env st a = Inr (st', rest) \<Longrightarrow> set rest \<subseteq> set a"
  by (auto simp: kinematics_option_def Let_def split: list.splits option.splits if_splits sum.splits
           dest!: braced_values_rest partition_triples_rest)

lemma global_option_option_rest:
  "global_option_option env st a = Inr (st', rest) \<Longrightarrow> set rest \<subseteq> set a"
  by (auto simp: global_option_option_def Let_def split: list.splits option.splits if_splits sum.splits
           dest!: braced_values_rest partition_triples_rest)

lemma goodness_of_fit_option_rest:
  "goodness_of_fit_option env st a = Inr (st', rest) \<Longrightarrow> set rest \<subseteq> set a"
  by (auto simp: goodness_of_fit_option_def Let_def split: list.splits option.splits if_splits sum.splits
           dest!: braced_values_rest partition_triples_rest)

lemma massive_mode_finding_option_rest:
  "massive_mode_finding_option env st a = Inr (st', rest) \<Longrightarrow> set rest \<subseteq> set a"
  by (auto simp: massive_mode_finding_option_def Let_def split: list.splits option.splits if_splits sum.splits
           dest!: braced_values_rest partition_triples_rest)

lemma no_prerun_option_rest:
  "no_prerun_option env st a = Inr (st', rest) \<Longrightarrow> set rest \<subseteq> set a"
  by (auto simp: no_prerun_option_def Let_def split: list.splits option.splits if_splits sum.splits
           dest!: braced_values_rest partition_triples_rest)

lemma observable_option_rest:
  "observable_option env st a = Inr (st', rest) \<Longrightarrow> set rest \<subseteq> set a"
  by (auto simp: observable_option_def Let_def split: list.splits option.splits if_splits sum.splits
           dest!: braced_values_rest partition_triples_rest)

lemma optimize_option_rest:
  "optimize_option env st a = Inr (st', rest) \<Longrightarrow> set rest \<subseteq> set a"
  by (auto simp: optimize_option_def Let_def split: list.splits option.splits if_splits sum.splits
           dest!: braced_values_rest partition_triples_rest)

lemma output_option_rest:
  "output_option env st a = Inr (st', rest) \<Longrightarrow> set rest \<subseteq> set a"
  by (auto simp: output_option_def Let_def split: list.splits option.splits if_splits sum.splits
           dest!: braced_values_rest partition_triples_rest)

lemma parallel_option_rest:
  "parallel_option env st a = Inr (st', rest) \<Longrightarrow> set rest \<subseteq> set a"
  by (auto simp: parallel_option_def Let_def split: list.splits option.splits if_splits sum.splits
           dest!: braced_values_rest partition_triples_rest)

lemma partition_option_rest:
  "partition_option env st a = Inr (st', rest) \<Longrightarrow> set rest \<subseteq> set a"
  by (auto simp: partition_option_def Let_def split: list.splits option.splits if_splits sum.splits
           dest!: braced_values_rest partition_triples_rest)

lemma partition_index_option_rest:
  "partition_index_option env st a = Inr (st', rest) \<Longrightarrow> set rest \<subseteq> set a"
  by (auto simp: partition_index_option_def Let_def split: list.splits option.splits if_splits sum.splits
           dest!: braced_values_rest partition_triples_rest)

lemma prerun_chains_per_partition_option_rest:
  "prerun_chains_per_partition_option env st a = Inr (st', rest) \<Longrightarrow> set rest \<subseteq> set a"
  by (auto simp: prerun_chains_per_partition_option_def Let_def split: list.splits option.splits if_splits sum.splits
           dest!: braced_values_rest partition_triples_rest)

lemma prerun_find_modes_option_rest:
  "prerun_find_modes_option env st a = Inr (st', rest) \<Longrightarrow> set rest \<subseteq> set a"
  by (auto simp: prerun_find_modes_option_def Let_def split: list.splits option.splits if_splits sum.splits
           dest!: braced_values_rest partition_triples_rest)

lemma prerun_max_option_rest:
  "prerun_max_option env st a = Inr (st', rest) \<Longrightarrow> set rest \<subseteq> set a"
  by (auto simp: prerun_max_option_def Let_def split: list.splits option.splits if_splits sum.splits
           dest!: braced_values_rest partition_triples_rest)

lemma prerun_min_option_rest:
  "prerun_min_option env st a = Inr (st', rest) \<Longrightarrow> set rest \<subseteq> set a"
  by (auto simp: prerun_min_option_def Let_def split: list.splits option.splits if_splits sum.splits
           dest!: braced_values_rest partition_triples_rest)

lemma prerun_only_option_rest:
  "prerun_only_option env st a = Inr (st', rest) \<Longrightarrow> set rest \<subseteq> set a"
  by (auto simp: prerun_only_option_def Let_def split: list.splits option.splits if_splits sum.splits
           dest!: braced_values_rest partition_triples_rest)

lemma prerun_update_option_rest:
  "prerun_update_option env st a = Inr (st', rest) \<Longrightarrow> set rest \<subseteq> set a"
  by (auto simp: prerun_update_option_def Let_def split: list.splits option.splits if_splits sum.splits
           dest!: braced_values_rest partition_triples_rest)

lemma print_args_option_rest:
  "print_args_option env st a = Inr (st', rest) \<Longrightarrow> set rest \<subseteq> set a"
  by (auto simp: print_args_option_def Let_def split: list.splits option.splits if_splits sum.splits
           dest!: braced_values_rest partition_triples_rest)

lemma prior_as_proposal_option_rest:
  "prior_as_proposal_option env st a = Inr (st', rest) \<Longrightarrow> set rest \<subseteq> set a"
  by (auto simp: prior_as_proposal_option_def Let_def split: list.splits option.splits if_splits sum.splits
           dest!: braced_values_rest partition_triples_rest)

lemma proposal_option_rest:
  "proposal_option env st a = Inr (st', rest) \<Longrightarrow> set rest \<subseteq> set a"
  by (auto simp: proposal_option_def Let_def split: list.splits option.splits if_splits sum.splits
           dest!: braced_values_rest partition_triples_rest)

lemma resume_option_rest:
  "resume_option env st a = Inr (st', rest) \<Longrightarrow> set rest \<subseteq> set a"
  by (auto simp: resume_option_def Let_def split: list.splits option.splits if_splits sum.splits
           dest!: braced_values_rest partition_triples_rest)

lemma seed_option_rest:
  "seed_option env st a = Inr (st', rest) \<Longrightarrow> set rest \<subseteq> set a"
  by (auto simp: seed_option_def Let_def split: list.splits option.splits if_splits sum.splits
           dest!: braced_values_rest partition_triples_rest)

lemma scale_reduction_option_rest:
  "scale_reduction_option env st a = Inr (st', rest) \<Longrightarrow> set rest \<subseteq> set a"
  by (auto simp: scale_reduction_option_def Let_def split: list.splits option.splits if_splits sum.splits
           dest!: braced_values_rest partition_triples_rest)

lemma store_prerun_option_rest:
  "store_prerun_option env st a = Inr (st', rest) \<Longrightarrow> set rest \<subseteq> set a"
  by (auto simp: store_prerun_option_def Let_def split: list.splits option.splits if_splits sum.splits
           dest!: braced_values_rest partition_triples_rest)

lemma store_observables_and_proposals_option_rest:
  "store_observables_and_proposals_option env st a = Inr (st', rest) \<Longrightarrow> set rest \<subseteq> set a"
  by (auto simp: store_observables_and_proposals_option_def Let_def split: list.splits option.splits if_splits sum.splits
           dest!: braced_values_rest partition_triples_rest)

lemmas option_rest =
  scan_option_rest chains_option_rest chunk_size_option_rest chunks_option_rest constraint_option_rest debug_option_rest discrete_option_rest fix_option_rest kinematics_option_rest global_option_option_rest goodness_of_fit_option_rest massive_mode_finding_option_rest no_prerun_option_rest observable_option_rest optimize_option_rest output_option_rest parallel_option_rest partition_option_rest partition_index_option_rest prerun_chains_per_partition_option_rest prerun_find_modes_option_rest prerun_max_option_rest prerun_min_option_rest prerun_only_option_rest prerun_update_option_rest print_args_option_rest prior_as_proposal_option_rest proposal_option_rest resume_option_rest seed_option_rest scale_reduction_option_rest store_prerun_option_rest store_observables_and_proposals_option_rest

lemma parse_option_rest:
  "parse_option env st argument a = Inr (st', rest) \<Longrightarrow> set rest \<subseteq> set a"
proof -
  have "parse_option env st argument a = Inr (st', rest) \<longrightarrow> set rest \<subseteq> set a"
    by (rule parse_option_cases
          [where P = "\<lambda>r. r = Inr (st', rest) \<longrightarrow> set rest \<subseteq> set a"])
       ((rule impI, erule option_rest) | simp)+
  then show "parse_option env st argument a = Inr (st', rest) \<Longrightarrow> set rest \<subseteq> set a"
    by simp
qed

subsection \<open>What the options keep of the configuration\<close>

lemma add_parameter_config:
  "add_parameter env st argument name rg prior_type prior' a = Inr (st', rest)
     \<Longrightarrow> config st' = config st \<and> partition_index st' = partition_index st"
  by (auto simp: add_parameter_def Let_def split: option.splits if_splits)

lemma scan_prior_config:
  "scan_prior env st argument name mn mx n_sigmas keyword a = Inr (st', rest)
     \<Longrightarrow> config st' = config st \<and> partition_index st' = partition_index st"
  by (auto simp: scan_prior_def Let_def split: list.splits if_splits
           dest!: add_parameter_config)

lemma scan_option_config:
  "scan_option env st argument a = Inr (st', rest)
     \<Longrightarrow> config st' = config st \<and> partition_index st' = partition_index st"
  by (auto simp: scan_option_def Let_def split: list.splits if_splits sum.splits
           dest!: scan_prior_config)

lemma scan_option_index:
  "scan_option env st argument a = Inr (st', rest) \<Longrightarrow> index_implies_prerun_output st
     \<Longrightarrow> index_implies_prerun_output st'"
  by (auto simp: index_implies_prerun_output_def dest!: scan_option_config)

lemma scan_option_need_prerun:
  "scan_option env st argument a = Inr (st', rest) \<Longrightarrow> \<not> need_prerun (config st)
     \<Longrightarrow> \<not> need_prerun (config st')"
  by (auto dest!: scan_option_config)

lemma chains_option_index:
  "chains_option env st a = Inr (st', rest) \<Longrightarrow> index_implies_prerun_output st
     \<Longrightarrow> index_implies_prerun_output st'"
  by (auto simp: chains_option_def index_implies_prerun_output_def Let_def
           split: list.splits option.splits if_splits sum.splits)

lemma chunk_size_option_index:
  "chunk_size_option env st a = Inr (st', rest) \<Longrightarrow> index_implies_prerun_output st
     \<Longrightarrow> index_implies_prerun_output st'"
  by (auto simp: chunk_size_option_def index_implies_prerun_output_def Let_def
           split: list.splits option.splits if_splits sum.splits)

lemma chunks_option_index:
  "chunks_option env st a = Inr (st', rest) \<Longrightarrow> index_implies_prerun_output st
     \<Longrightarrow> index_implies_prerun_output st'"
  by (auto simp: chunks_option_def index_implies_prerun_output_def Let_def
           split: list.splits option.splits if_splits sum.splits)

lemma constraint_option_index:
  "constraint_option env st a = Inr (st', rest) \<Longrightarrow> index_implies_prerun_output st
     \<Longrightarrow> index_implies_prerun_output st'"
  by (auto simp: constraint_option_def index_implies_prerun_output_def Let_def
           split: list.splits option.splits if_splits sum.splits)

lemma debug_option_index:
  "debug_option env st a = Inr (st', rest) \<Longrightarrow> index_implies_prerun_output st
     \<Longrightarrow> index_implies_prerun_output st'"
  by (auto simp: debug_option_def index_implies_prerun_output_def Let_def
           split: list.splits option.splits if_splits sum.splits)

lemma discrete_option_index:
  "discrete_option env st a = Inr (st', rest) \<Longrightarrow> index_implies_prerun_output st
     \<Longrightarrow> index_implies_prerun_output st'"
  by (auto simp: discrete_option_def index_implies_prerun_output_def Let_def
           split: list.splits option.splits if_splits sum.splits)

lemma fix_option_index:
  "fix_option env st a = Inr (st', rest) \<Longrightarrow> index_implies_prerun_output st
     \<Longrightarrow> index_implies_prerun_output st'"
  by (auto simp: fix_option_def index_implies_prerun_output_def Let_def
           split: list.splits option.splits if_splits sum.splits)

lemma kinematics_option_index:
  "kinematics_option env st a = Inr (st', rest) \<Longrightarrow> index_implies_prerun_output st
     \<Longrightarrow> index_implies_prerun_output st'"
  by (auto simp: kinematics_option_def index_implies_prerun_output_def Let_def
           split: list.splits option.splits if_splits sum.splits)

lemma global_option_option_index:
  "global_option_option env st a = Inr (st', rest) \<Longrightarrow> index_implies_prerun_output st
     \<Longrightarrow> index_implies_prerun_output st'"
  by (auto simp: global_option_option_def index_implies_prerun_output_def Let_def
           split: list.splits option.splits if_splits sum.splits)

lemma goodness_of_fit_option_index:
  "goodness_of_fit_option env st a = Inr (st', rest) \<Longrightarrow> index_implies_prerun_output st
     \<Longrightarrow> index_implies_prerun_output st'"
  by (auto simp: goodness_of_fit_option_def index_implies_prerun_output_def Let_def
           split: list.splits option.splits if_splits sum.splits)

lemma massive_mode_finding_option_index:
  "massive_mode_finding_option env st a = Inr (st', rest) \<Longrightarrow> index_implies_prerun_output st
     \<Longrightarrow> index_implies_prerun_output st'"
  by (auto simp: massive_mode_finding_option_def index_implies_prerun_output_def Let_def
           split: list.splits option.splits if_splits sum.splits)

lemma no_prerun_option_index:
  "no_prerun_option env st a = Inr (st', rest) \<Longrightarrow> index_implies_prerun_output st
     \<Longrightarrow> index_implies_prerun_output st'"
  by (auto simp: no_prerun_option_def index_implies_prerun_output_def Let_def
           split: list.splits option.splits if_splits sum.splits)

lemma observable_option_index:
  "observable_option env st a = Inr (st', rest) \<Longrightarrow> index_implies_prerun_output st
     \<Longrightarrow> index_implies_prerun_output st'"
  by (auto simp: observable_option_def index_implies_prerun_output_def Let_def
           split: list.splits option.splits if_splits sum.splits)

lemma optimize_option_index:
  "optimize_option env st a = Inr (st', rest) \<Longrightarrow> index_implies_prerun_output st
     \<Longrightarrow> index_implies_prerun_output st'"
  by (auto simp: optimize_option_def index_implies_prerun_output_def Let_def
           split: list.splits option.splits if_splits sum.splits)

lemma output_option_index:
  "output_option env st a = Inr (st', rest) \<Longrightarrow> index_implies_prerun_output st
     \<Longrightarrow> index_implies_prerun_output st'"
  by (auto simp: output_option_def index_implies_prerun_output_def Let_def
           split: list.splits option.splits if_splits sum.splits)

lemma parallel_option_index:
  "parallel_option env st a = Inr (st', rest) \<Longrightarrow> index_implies_prerun_output st
     \<Longrightarrow> index_implies_prerun_output st'"
  by (auto simp: parallel_option_def index_implies_prerun_output_def Let_def
           split: list.splits option.splits if_splits sum.splits)

lemma partition_option_index:
  "partition_option env st a = Inr (st', rest) \<Longrightarrow> index_implies_prerun_output st
     \<Longrightarrow> index_implies_prerun_output st'"
  by (auto simp: partition_option_def index_implies_prerun_output_def Let_def
           split: list.splits option.splits if_splits sum.splits)

lemma partition_index_option_index:
  "partition_index_option env st a = Inr (st', rest) \<Longrightarrow> index_implies_prerun_output st
     \<Longrightarrow> index_implies_prerun_output st'"
  by (auto simp: partition_index_option_def index_implies_prerun_output_def Let_def
           split: list.splits option.splits if_splits sum.splits)

lemma prerun_chains_per_partition_option_index:
  "prerun_chains_per_partition_option env st a = Inr (st', rest) \<Longrightarrow> index_implies_prerun_output st
     \<Longrightarrow> index_implies_prerun_output st'"
  by (auto simp: prerun_chains_per_partition_option_def index_implies_prerun_output_def Let_def
           split: list.splits option.splits if_splits sum.splits)

lemma prerun_find_modes_option_index:
  "prerun_find_modes_option env st a = Inr (st', rest) \<Longrightarrow> index_implies_prerun_output st
     \<Longrightarrow> index_implies_prerun_output st'"
  by (auto simp: prerun_find_modes_option_def index_implies_prerun_output_def Let_def
           split: list.splits option.splits if_splits sum.splits)

lemma prerun_max_option_index:
  "prerun_max_option env st a = Inr (st', rest) \<Longrightarrow> index_implies_prerun_output st
     \<Longrightarrow> index_implies_prerun_output st'"
  by (auto simp: prerun_max_option_def index_implies_prerun_output_def Let_def
           split: list.splits option.splits if_splits sum.splits)

lemma prerun_min_option_index:
  "prerun_min_option env st a = Inr (st', rest) \<Longrightarrow> index_implies_prerun_output st
     \<Longrightarrow> index_implies_prerun_output st'"
  by (auto simp: prerun_min_option_def index_implies_prerun_output_def Let_def
           split: list.splits option.splits if_splits sum.splits)

lemma prerun_only_option_index:
  "prerun_only_option env st a = Inr (st', rest) \<Longrightarrow> index_implies_prerun_output st
     \<Longrightarrow> index_implies_prerun_output st'"
  by (auto simp: prerun_only_option_def index_implies_prerun_output_def Let_def
           split: list.splits option.splits if_splits sum.splits)

lemma prerun_update_option_index:
  "prerun_update_option env st a = Inr (st', rest) \<Longrightarrow> index_implies_prerun_output st
     \<Longrightarrow> index_implies_prerun_output st'"
  by (auto simp: prerun_update_option_def index_implies_prerun_output_def Let_def
           split: list.splits option.splits if_splits sum.splits)

lemma print_args_option_index:
  "print_args_option env st a = Inr (st', rest) \<Longrightarrow> index_implies_prerun_output st
     \<Longrightarrow> index_implies_prerun_output st'"
  by (auto simp: print_args_option_def index_implies_prerun_output_def Let_def
           split: list.splits option.splits if_splits sum.splits)

lemma prior_as_proposal_option_index:
  "prior_as_proposal_option env st a = Inr (st', rest) \<Longrightarrow> index_implies_prerun_output st
     \<Longrightarrow> index_implies_prerun_output st'"
  by (auto simp: prior_as_proposal_option_def index_implies_prerun_output_def Let_def
           split: list.splits option.splits if_splits sum.splits)

lemma proposal_option_index:
  "proposal_option env st a = Inr (st', rest) \<Longrightarrow> index_implies_prerun_output st
     \<Longrightarrow> index_implies_prerun_output st'"
  by (auto simp: proposal_option_def index_implies_prerun_output_def Let_def
           split: list.splits option.splits if_splits sum.splits)

lemma resume_option_index:
  "resume_option env st a = Inr (st', rest) \<Longrightarrow> index_implies_prerun_output st
     \<Longrightarrow> index_implies_prerun_output st'"
  by (auto simp: resume_option_def index_implies_prerun_output_def Let_def
           split: list.splits option.splits if_splits sum.splits)

lemma seed_option_index:
  "seed_option env st a = Inr (st', rest) \<Longrightarrow> index_implies_prerun_output st
     \<Longrightarrow> index_implies_prerun_output st'"
  by (auto simp: seed_option_def index_implies_prerun_output_def Let_def
           split: list.splits option.splits if_splits sum.splits)

lemma scale_reduction_option_index:
  "scale_reduction_option env st a = Inr (st', rest) \<Longrightarrow> index_implies_prerun_output st
     \<Longrightarrow> index_implies_prerun_output st'"
  by (auto simp: scale_reduction_option_def index_implies_prerun_output_def Let_def
           split: list.splits option.splits if_splits sum.splits)

lemma store_prerun_option_index:
  "store_prerun_option env st a = Inr (st', rest) \<Longrightarrow> index_implies_prerun_output st
     \<Longrightarrow> index_implies_prerun_output st'"
  by (auto simp: store_prerun_option_def index_implies_prerun_output_def Let_def
           split: list.splits option.splits if_splits sum.splits)

lemma store_observables_and_proposals_option_index:
  "store_observables_and_proposals_option env st a = Inr (st', rest) \<Longrightarrow> index_implies_prerun_output st
     \<Longrightarrow> index_implies_prerun_output st'"
  by (auto simp: store_observables_and_proposals_option_def index_implies_prerun_output_def Let_def
           split: list.splits option.splits if_splits sum.splits)

lemma chains_option_need_prerun:
  "chains_option env st a = Inr (st', rest) \<Longrightarrow> \<not> need_prerun (config st)
     \<Longrightarrow> \<not> need_prerun (config st')"
  by (auto simp: chains_option_def Let_def split: list.splits option.splits if_splits sum.splits)

lemma chunk_size_option_need_prerun:
  "chunk_size_option env st a = Inr (st', rest) \<Longrightarrow> \<not> need_prerun (config st)
     \<Longrightarrow> \<not> need_prerun (config st')"
  by (auto simp: chunk_size_option_def Let_def split: list.splits option.splits if_splits sum.splits)

lemma chunks_option_need_prerun:
  "chunks_option env st a = Inr (st', rest) \<Longrightarrow> \<not> need_prerun (config st)
     \<Longrightarrow> \<not> need_prerun (config st')"
  by (auto simp: chunks_option_def Let_def split: list.splits option.splits if_splits sum.splits)

lemma constraint_option_need_prerun:
  "constraint_option env st a = Inr (st', rest) \<Longrightarrow> \<not> need_prerun (config st)
     \<Longrightarrow> \<not> need_prerun (config st')"
  by (auto simp: constraint_option_def Let_def split: list.splits option.splits if_splits sum.splits)

lemma debug_option_need_prerun:
  "debug_option env st a = Inr (st', rest) \<Longrightarrow> \<not> need_prerun (config st)
     \<Longrightarrow> \<not> need_prerun (config st')"
  by (auto simp: debug_option_def Let_def split: list.splits option.splits if_splits sum.splits)

lemma discrete_option_need_prerun:
  "discrete_option env st a = Inr (st', rest) \<Longrightarrow> \<not> need_prerun (config st)
     \<Longrightarrow> \<not> need_prerun (config st')"
  by (auto simp: discrete_option_def Let_def split: list.splits option.splits if_splits sum.splits)

lemma fix_option_need_prerun:
  "fix_option env st a = Inr (st', rest) \<Longrightarrow> \<not> need_prerun (config st)
     \<Longrightarrow> \<not> need_prerun (config st')"
  by (auto simp: fix_option_def Let_def split: list.splits option.splits if_splits sum.splits)

lemma kinematics_option_need_prerun:
  "kinematics_option env st a = Inr (st', rest) \<Longrightarrow> \<not> need_prerun (config st)
     \<Longrightarrow> \<not> need_prerun (config st')"
  by (auto simp: kinematics_option_def Let_def split: list.splits option.splits if_splits sum.splits)

lemma global_option_option_need_prerun:
  "global_option_option env st a = Inr (st', rest) \<Longrightarrow> \<not> need_prerun (config st)
     \<Longrightarrow> \<not> need_prerun (config st')"
  by (auto simp: global_option_option_def Let_def split: list.splits option.splits if_splits sum.splits)

lemma goodness_of_fit_option_need_prerun:
  "goodness_of_fit_option env st a = Inr (st', rest) \<Longrightarrow> \<not> need_prerun (config st)
     \<Longrightarrow> \<not> need_prerun (config st')"
  by (auto simp: goodness_of_fit_option_def Let_def split: list.splits option.splits if_splits sum.splits)

lemma massive_mode_finding_option_need_prerun:
  "massive_mode_finding_option env st a = Inr (st', rest) \<Longrightarrow> \<not> need_prerun (config st)
     \<Longrightarrow> \<not> need_prerun (config st')"
  by (auto simp: massive_mode_finding_option_def Let_def split: list.splits option.splits if_splits sum.splits)

lemma no_prerun_option_need_prerun:
  "no_prerun_option env st a = Inr (st', rest) \<Longrightarrow> \<not> need_prerun (config st)
     \<Longrightarrow> \<not> need_prerun (config st')"
  by (auto simp: no_prerun_option_def Let_def split: list.splits option.splits if_splits sum.splits)

lemma observable_option_need_prerun:
  "observable_option env st a = Inr (st', rest) \<Longrightarrow> \<not> need_prerun (config st)
     \<Longrightarrow> \<not> need_prerun (config st')"
  by (auto simp: observable_option_def Let_def split: list.splits option.splits if_splits sum.splits)

lemma optimize_option_need_prerun:
  "optimize_option env st a = Inr (st', rest) \<Longrightarrow> \<not> need_prerun (config st)
     \<Longrightarrow> \<not> need_prerun (config st')"
  by (auto simp: optimize_option_def Let_def split: list.splits option.splits if_splits sum.splits)

lemma output_option_need_prerun:
  "output_option env st a = Inr (st', rest) \<Longrightarrow> \<not> need_prerun (config st)
     \<Longrightarrow> \<not> need_prerun (config st')"
  by (auto simp: output_option_def Let_def split: list.splits option.splits if_splits sum.splits)

lemma parallel_option_need_prerun:
  "parallel_option env st a = Inr (st', rest) \<Longrightarrow> \<not> need_prerun (config st)
     \<Longrightarrow> \<not> need_prerun (config st')"
  by (auto simp: parallel_option_def Let_def split: list.splits option.splits if_splits sum.splits)

lemma partition_option_need_prerun:
  "partition_option env st a = Inr (st', rest) \<Longrightarrow> \<not> need_prerun (config st)
     \<Longrightarrow> \<not> need_prerun (config st')"
  by (auto simp: partition_option_def Let_def split: list.splits option.splits if_splits sum.splits)

lemma partition_index_option_need_prerun:
  "partition_index_option env st a = Inr (st', rest) \<Longrightarrow> \<not> need_prerun (config st)
     \<Longrightarrow> \<not> need_prerun (config st')"
  by (auto simp: partition_index_option_def Let_def split: list.splits option.splits if_splits sum.splits)

lemma prerun_chains_per_partition_option_need_prerun:
  "prerun_chains_per_partition_option env st a = Inr (st', rest) \<Longrightarrow> \<not> need_prerun (config st)
     \<Longrightarrow> \<not> need_prerun (config st')"
  by (auto simp: prerun_chains_per_partition_option_def Let_def split: list.splits option.splits if_splits sum.splits)

lemma prerun_find_modes_option_need_prerun:
  "prerun_find_modes_option env st a = Inr (st', rest) \<Longrightarrow> \<not> need_prerun (config st)
     \<Longrightarrow> \<not> need_prerun (config st')"
  by (auto simp: prerun_find_modes_option_def Let_def split: list.splits option.splits if_splits sum.splits)

lemma prerun_max_option_need_prerun:
  "prerun_max_option env st a = Inr (st', rest) \<Longrightarrow> \<not> need_prerun (config st)
     \<Longrightarrow> \<not> need_prerun (config st')"
  by (auto simp: prerun_max_option_def Let_def split: list.splits option.splits if_splits sum.splits)

lemma prerun_min_option_need_prerun:
  "prerun_min_option env st a = Inr (st', rest) \<Longrightarrow> \<not> need_prerun (config st)
     \<Longrightarrow> \<not> need_prerun (config st')"
  by (auto simp: prerun_min_option_def Let_def split: list.splits option.splits if_splits sum.splits)

lemma prerun_update_option_need_prerun:
  "prerun_update_option env st a = Inr (st', rest) \<Longrightarrow> \<not> need_prerun (config st)
     \<Longrightarrow> \<not> need_prerun (config st')"
  by (auto simp: prerun_update_option_def Let_def split: list.splits option.splits if_splits sum.splits)

lemma print_args_option_need_prerun:
  "print_args_option env st a = Inr (st', rest) \<Longrightarrow> \<not> need_prerun (config st)
     \<Longrightarrow> \<not> need_prerun (config st')"
  by (auto simp: print_args_option_def Let_def split: list.splits option.splits if_splits sum.splits)

lemma prior_as_proposal_option_need_prerun:
  "prior_as_proposal_option env st a = Inr (st', rest) \<Longrightarrow> \<not> need_prerun (config st)
     \<Longrightarrow> \<not> need_prerun (config st')"
  by (auto simp: prior_as_proposal_option_def Let_def split: list.splits option.splits if_splits sum.splits)

lemma proposal_option_need_prerun:
  "proposal_option env st a = Inr (st', rest) \<Longrightarrow> \<not> need_prerun (config st)
     \<Longrightarrow> \<not> need_prerun (config st')"
  by (auto simp: proposal_option_def Let_def split: list.splits option.splits if_splits sum.splits)

lemma resume_option_need_prerun:
  "resume_option env st a = Inr (st', rest) \<Longrightarrow> \<not> need_prerun (config st)
     \<Longrightarrow> \<not> need_prerun (config st')"
  by (auto simp: resume_option_def Let_def split: list.splits option.splits if_splits sum.splits)

lemma seed_option_need_prerun:
  "seed_option env st a = Inr (st', rest) \<Longrightarrow> \<not> need_prerun (config st)
     \<Longrightarrow> \<not> need_prerun (config st')"
  by (auto simp: seed_option_def Let_def split: list.splits option.splits if_splits sum.splits)

lemma scale_reduction_option_need_prerun:
  "scale_reduction_option env st a = Inr (st', rest) \<Longrightarrow> \<not> need_prerun (config st)
     \<Longrightarrow> \<not> need_prerun (config st')"
  by (auto simp: scale_reduction_option_def Let_def split: list.splits option.splits if_splits sum.splits)

lemma store_prerun_option_need_prerun:
  "store_prerun_option env st a = Inr (st', rest) \<Longrightarrow> \<not> need_prerun (config st)
     \<Longrightarrow> \<not> need_prerun (config st')"
  by (auto simp: store_prerun_option_def Let_def split: list.splits option.splits if_splits sum.splits)

lemma store_observables_and_proposals_option_need_prerun:
  "store_observables_and_proposals_option env st a = Inr (st', rest) \<Longrightarrow> \<not> need_prerun (config st)
     \<Longrightarrow> \<not> need_prerun (config st')"
  by (auto simp: store_observables_and_proposals_option_def Let_def split: list.splits option.splits if_splits sum.splits)

lemmas option_index =
  scan_option_index chains_option_index chunk_size_option_index chunks_option_index constraint_option_index debug_option_index discrete_option_index fix_option_index kinematics_option_index global_option_option_index goodness_of_fit_option_index massive_mode_finding_option_index no_prerun_option_index observable_option_index optimize_option_index output_option_index parallel_option_index partition_option_index partition_index_option_index prerun_chains_per_partition_option_index prerun_find_modes_option_index prerun_max_option_index prerun_min_option_index prerun_only_option_index prerun_update_option_index print_args_option_index prior_as_proposal_option_index proposal_option_index resume_option_index seed_option_index scale_reduction_option_index store_prerun_option_index store_observables_and_proposals_option_index

lemmas option_need_prerun =
  scan_option_need_prerun chains_option_need_prerun chunk_size_option_need_prerun chunks_option_need_prerun constraint_option_need_prerun debug_option_need_prerun discrete_option_need_prerun fix_option_need_prerun kinematics_option_need_prerun global_option_option_need_prerun goodness_of_fit_option_need_prerun massive_mode_finding_option_need_prerun no_prerun_option_need_prerun observable_option_need_prerun optimize_option_need_prerun output_option_need_prerun parallel_option_need_prerun partition_option_need_prerun partition_index_option_need_prerun prerun_chains_per_partition_option_need_prerun prerun_find_modes_option_need_prerun prerun_max_option_need_prerun prerun_min_option_need_prerun prerun_update_option_need_prerun print_args_option_need_prerun prior_as_proposal_option_need_prerun proposal_option_need_prerun resume_option_need_prerun seed_option_need_prerun scale_reduction_option_need_prerun store_prerun_option_need_prerun store_observables_and_proposals_option_need_prerun

lemma parse_option_index:
  assumes "parse_option env st argument a = Inr (st', rest)"
    and "index_implies_prerun_output st"
  shows "index_implies_prerun_output st'"
proof -
  have "parse_option env st argument a = Inr (st', rest) \<longrightarrow> index_implies_prerun_output st'"
    by (rule parse_option_cases
          [where P = "\<lambda>r. r = Inr (st', rest) \<longrightarrow> index_implies_prerun_output st'"])
       ((rule impI, erule option_index, rule assms(2)) | simp)+
  with assms(1) show ?thesis by simp
qed

lemma parse_option_need_prerun:
  assumes "parse_option env st argument a = Inr (st', rest)"
    and "\<not> need_prerun (config st)"
    and "argument \<noteq> ''--prerun-only''"
  shows "\<not> need_prerun (config st')"
proof -
  have "parse_option env st argument a = Inr (st', rest) \<longrightarrow> \<not> need_prerun (config st')"
    by (rule parse_option_cases
          [where P = "\<lambda>r. r = Inr (st', rest) \<longrightarrow> \<not> need_prerun (config st')"])
       ((rule impI, erule option_need_prerun, rule assms(2)) | simp add: assms(3))+
  with assms(1) show ?thesis by simp
qed

lemma parse_loop_index:
  "parse_loop env st a = Inr st' \<Longrightarrow> index_implies_prerun_output st
     \<Longrightarrow> index_implies_prerun_output st'"
proof (induction env st a rule: parse_loop.induct)
  case (1 env st)
  then show ?case by simp
next
  case (2 env st argument a)
  from "2.prems"(1) obtain st1 rest where
    step: "parse_option env st argument a = Inr (st1, rest)" and
    loop: "parse_loop env st1 rest = Inr st'"
    by (auto split: sum.splits)
  from parse_option_index [OF step "2.prems"(2)] have "index_implies_prerun_output st1" .
  with "2.IH" [OF step refl loop] show ?case .
qed

lemma parse_loop_need_prerun:
  "parse_loop env st a = Inr st' \<Longrightarrow> \<not> need_prerun (config st)
     \<Longrightarrow> ''--prerun-only'' \<notin> set a \<Longrightarrow> \<not> need_prerun (config st')"
proof (induction env st a rule: parse_loop.induct)
  case (1 env st)
  then show ?case by simp
next
  case (2 env st argument a)
  from "2.prems"(1) obtain st1 rest where
    step: "parse_option env st argument a = Inr (st1, rest)" and
    loop: "parse_loop env st1 rest = Inr st'"
    by (auto split: sum.splits)
  from "2.prems"(3) have arg: "argument \<noteq> ''--prerun-only''" and a: "''--prerun-only'' \<notin> set a"
    by auto
  from parse_option_need_prerun [OF step "2.prems"(2) arg] have st1: "\<not> need_prerun (config st1)" .
  from parse_option_rest [OF step] a have "''--prerun-only'' \<notin> set rest"
    by auto
  with "2.IH" [OF step refl loop st1] show ?case .
qed

section \<open>The claims\<close>

lemmas example_defs = example_env_def example_config_def example_double_def example_unsigned_def

subsection \<open>Partitions\<close>

text \<open>\<^verbatim>\<open>--partition\<close> followed by the words of the triples and by the next option
  declares one more partition: the triples as they were written, in their order.\<close>

lemma partition_triples_declared:
  assumes "list_all (\<lambda>t. take 2 (fst t) \<noteq> ''--'') ts"
    and "take 2 key = ''--''"
    and "partition_words ts @ key # a = k # b"
  shows "partition_triples env k b triples = Inr (triples @ map (read_triple env) ts, key # a)"
  using assms(1,3)
proof (induction ts arbitrary: k b triples)
  case Nil
  then have "k = key" and "b = a"
    by (simp_all add: partition_words_def)
  with assms(2) show ?case
    by (simp add: partition_triples.simps [of env key])
next
  case (Cons t ts)
  obtain name mn mx where t: "t = (name, mn, mx)"
    by (cases t)
  with Cons.prems(2) have k: "k = name" and b: "b = mn # mx # partition_words ts @ key # a"
    by (simp_all add: partition_words_def)
  from Cons.prems(1) t have name: "take 2 name \<noteq> ''--''" and ts: "list_all (\<lambda>t. take 2 (fst t) \<noteq> ''--'') ts"
    by simp_all
  obtain k' b' where next_key: "partition_words ts @ key # a = k' # b'"
    by (cases "partition_words ts @ key # a") simp_all
  from Cons.IH [OF ts next_key]
  have "partition_triples env k' b' (triples @ [read_triple env t])
          = Inr ((triples @ [read_triple env t]) @ map (read_triple env) ts, key # a)" .
  with name k b next_key t show ?case
    by (simp add: partition_triples.simps [of env name] read_triple_def)
qed

lemma partition_option_declared:
  assumes "list_all (\<lambda>t. take 2 (fst t) \<noteq> ''--'') ts"
    and "take 2 key = ''--''"
  shows "parse_option env st ''--partition'' (partition_words ts @ key # a)
         = Inr (st\<lparr>config := (config st)\<lparr>partitions :=
                  partitions (config st) @ [map (read_triple env) ts]\<rparr>\<rparr>, key # a)"
proof -
  obtain k b where kb: "partition_words ts @ key # a = k # b"
    by (cases "partition_words ts @ key # a") simp_all
  from partition_triples_declared [OF assms kb, of env "[]"] kb show ?thesis
    by (simp add: parse_option_def partition_option_def)
qed

lemma partition_option_declared_example:
  "parse_option example_env example_inst ''--partition''
     [''p'', ''1'', ''2'', ''q'', ''3'', ''4'', ''--partition-index'', ''0'']
   = Inr (example_inst\<lparr>config := (config example_inst)
            \<lparr>partitions := [[(''p'', 1, 2), (''q'', 3, 4)]]\<rparr>\<rparr>, [''--partition-index'', ''0''])"
  using partition_option_declared
    [of "[(''p'', ''1'', ''2''), (''q'', ''3'', ''4'')]" "''--partition-index''" example_env
        example_inst "[''0'']"]
  by (simp add: partition_words_def read_triple_def example_defs example_inst_def
      CommandLine_new_def)

text \<open>Several partitions declared one after the other, up to the next option, are appended
  to the partitions of the configuration in the order of the command line.\<close>

lemma declared_words_next_option:
  assumes "take 2 key = ''--''"
  obtains k b where "declared_words ps @ key # a = k # b" and "take 2 k = ''--''"
proof (cases ps)
  case Nil
  with assms that [of key a] show ?thesis
    by (simp add: declared_words_def)
next
  case (Cons ts ps')
  with that [of "''--partition''" "partition_words ts @ declared_words ps' @ key # a"] show ?thesis
    by (simp add: declared_words_def)
qed

lemma parse_loop_declared:
  assumes "list_all (list_all (\<lambda>t. take 2 (fst t) \<noteq> ''--'')) ps"
    and "take 2 key = ''--''"
  shows "parse_loop env st (declared_words ps @ key # a)
         = parse_loop env
             (st\<lparr>config := (config st)\<lparr>partitions :=
                  partitions (config st) @ map (map (read_triple env)) ps\<rparr>\<rparr>)
             (key # a)"
  using assms(1)
proof (induction ps arbitrary: st)
  case Nil
  show ?case
    by (simp add: declared_words_def)
next
  case (Cons ts ps)
  from Cons.prems have ts: "list_all (\<lambda>t. take 2 (fst t) \<noteq> ''--'') ts"
    and ps: "list_all (list_all (\<lambda>t. take 2 (fst t) \<noteq> ''--'')) ps"
    by simp_all
  obtain k b where next_option: "declared_words ps @ key # a = k # b" and k: "take 2 k = ''--''"
    using assms(2) by (rule declared_words_next_option)
  let ?st1 = "st\<lparr>config := (config st)\<lparr>partitions :=
                 partitions (config st) @ [map (read_triple env) ts]\<rparr>\<rparr>"
  have "declared_words (ts # ps) @ key # a = ''--partition'' # partition_words ts @ k # b"
    using next_option by (simp add: declared_words_def)
  then have "parse_loop env st (declared_words (ts # ps) @ key # a)
               = parse_loop env ?st1 (k # b)"
    using partition_option_declared [OF ts k, of env st b] by simp
  also have "\<dots> = parse_loop env ?st1 (declared_words ps @ key # a)"
    using next_option by simp
  also have "\<dots> = parse_loop env
             (?st1\<lparr>config := (config ?st1)\<lparr>partitions :=
                  partitions (config ?st1) @ map (map (read_triple env)) ps\<rparr>\<rparr>)
             (key # a)"
    by (rule Cons.IH [OF ps])
  finally show ?case
    by simp
qed

text \<open>
  C1. From any state of the parser, the loop over the words that declare the partitions
  \<open>ps\<close> and over \<^verbatim>\<open>--partition-index i\<close> ends in the state whose partitions are the
  ones declared (those of the state, then \<open>ps\<close> as read from the words, each with its
  triples in the order written), with the index \<open>i\<close>. For \<open>i\<close> within these partitions the
  selection of \<^verbatim>\<open>main\<close> replaces them by the single partition declared at index \<open>i\<close>,
  triple by triple as it was declared; a run that reaches the selection (an input or a
  constraint is given, neither the optimization nor the goodness of fit is asked for) builds
  the sampler, as its first action, from exactly that configuration.
\<close>

theorem partition_index_selects_declared_partition:
  assumes "list_all (list_all (\<lambda>t. take 2 (fst t) \<noteq> ''--'')) ps"
    and "destringify_unsigned env i_s = i"
    and "declared = partitions (config st) @ map (map (read_triple env)) ps"
    and "unat i < length declared"
    and "st' = st\<lparr>partition_index := Some i,
                  config := (config st)\<lparr>partitions := declared, need_main_run := False,
                              store_prerun := True\<rparr>\<rparr>"
  shows "parse_loop env st (declared_words ps @ [''--partition-index'', i_s]) = Inr st'
         \<and> select_partition env st' = Inr ((config st')\<lparr>partitions := [declared ! unat i]\<rparr>)
         \<and> ((inputs st \<noteq> [] \<or> constraints st \<noteq> [])
              \<and> \<not> optimize st \<and> \<not> goodness_of_fit st
            \<longrightarrow> run env st' = sampling env st' ((config st')\<lparr>partitions := [declared ! unat i]\<rparr>)
                \<and> hd (performed (run env st'))
                  = ConstructSampler (analysis st)
                      ((config st')\<lparr>partitions := [declared ! unat i]\<rparr>))"
proof -
  have "take 2 ''--partition-index'' = ''--''"
    by simp
  from parse_loop_declared [OF assms(1) this, of env st "[i_s]"]
  have "parse_loop env st (declared_words ps @ [''--partition-index'', i_s])
          = parse_loop env (st\<lparr>config := (config st)\<lparr>partitions := declared\<rparr>\<rparr>)
              [''--partition-index'', i_s]"
    using assms(3) by simp
  also have "\<dots> = Inr st'"
    using assms(2,5) by (simp add: parse_option_def partition_index_option_def)
  finally have parsed: "parse_loop env st (declared_words ps @ [''--partition-index'', i_s]) = Inr st'" .
  from assms(4) have "declared \<noteq> []"
    by auto
  with assms(4,5) have sel: "select_partition env st'
      = Inr ((config st')\<lparr>partitions := [declared ! unat i]\<rparr>)"
    by (simp add: select_partition_def Let_def)
  have first: "hd (performed (sampling env st' c)) = ConstructSampler (analysis st) c" for c
    using assms(5)
    by (simp add: sampling_def Let_def failed_def succeeded_def split: option.splits)
  from sel assms(5) have "run env st'
      = sampling env st' ((config st')\<lparr>partitions := [declared ! unat i]\<rparr>)"
    if "inputs st \<noteq> [] \<or> constraints st \<noteq> []" and "\<not> optimize st" and "\<not> goodness_of_fit st"
    using that by (auto simp: run_def)
  with parsed sel first show ?thesis
    by simp
qed

text \<open>The command line declares the partitions \<open>[p]\<close> and \<open>[p, q]\<close> and asks for index 1:
  \<^verbatim>\<open>main\<close> builds the sampler with \<open>[p, q]\<close> alone.\<close>

theorem partition_index_selects_declared_partition_witness:
  "hd (performed (main example_env
         [''eos-scan-mc'', ''--constraint'', ''c'', ''--partition'', ''p'', ''0'', ''1'',
          ''--partition'', ''p'', ''1'', ''2'', ''q'', ''3'', ''4'', ''--partition-index'', ''1'']))
     = ConstructSampler \<lparr>parameter_descriptions = [], fixed_values = []\<rparr>
         ((config (CommandLine_new example_env))
            \<lparr>partitions := [[(''p'', 1, 2), (''q'', 3, 4)]], need_main_run := False,
             store_prerun := True\<rparr>)"
proof -
  let ?argv = "[''eos-scan-mc'', ''--constraint'', ''c'', ''--partition'', ''p'', ''0'', ''1'',
          ''--partition'', ''p'', ''1'', ''2'', ''q'', ''3'', ''4'', ''--partition-index'', ''1'']"
  let ?ps = "[[(''p'', ''0'', ''1'')], [(''p'', ''1'', ''2''), (''q'', ''3'', ''4'')]]"
  let ?st = "(CommandLine_new example_env)
               \<lparr>log_level := ll_informational,
                creator := foldl (\<lambda>c s. c @ '' '' @ s) ''eos-scan-mc'' (tl ?argv),
                constraints := [\<lparr>made_from = ''c'', made_with = []\<rparr>]\<rparr>"
  let ?declared = "partitions (config ?st) @ map (map (read_triple example_env)) ?ps"
  let ?st' = "?st\<lparr>partition_index := Some 1,
                  config := (config ?st)\<lparr>partitions := ?declared, need_main_run := False,
                              store_prerun := True\<rparr>\<rparr>"
  have names: "list_all (list_all (\<lambda>t. take 2 (fst t) \<noteq> ''--'')) ?ps"
    by simp
  have index: "destringify_unsigned example_env ''1'' = 1"
    by (simp add: example_defs)
  have declared: "?declared = [[(''p'', 0, 1)], [(''p'', 1, 2), (''q'', 3, 4)]]"
    by (simp add: read_triple_def CommandLine_new_def example_defs)
  then have within: "unat (1 :: unsigned) < length ?declared"
    by simp
  note selected = partition_index_selects_declared_partition
    [OF names index refl within refl]
  have reaches: "(inputs ?st \<noteq> [] \<or> constraints ?st \<noteq> [])
                   \<and> \<not> optimize ?st \<and> \<not> goodness_of_fit ?st"
    by (simp add: CommandLine_new_def example_defs)
  have "parse example_env (CommandLine_new example_env) ?argv
          = parse_loop example_env ?st (declared_words ?ps @ [''--partition-index'', ''1''])"
    by (simp add: parse_def parse_option_def constraint_option_def declared_words_def
        partition_words_def CommandLine_new_def example_defs)
  also from selected have "\<dots> = Inr ?st'"
    by (rule conjunct1)
  finally have parsed: "parse example_env (CommandLine_new example_env) ?argv = Inr ?st'" .
  have run: "main example_env ?argv = run example_env ?st'"
    unfolding main_def parsed by simp
  from selected reaches have
    "run example_env ?st'
       = sampling example_env ?st' ((config ?st')\<lparr>partitions := [?declared ! unat (1 :: unsigned)]\<rparr>)
     \<and> hd (performed (run example_env ?st'))
       = ConstructSampler (analysis ?st)
           ((config ?st')\<lparr>partitions := [?declared ! unat (1 :: unsigned)]\<rparr>)"
    by (rule conjunct2 [THEN conjunct2, THEN mp])
  then have "hd (performed (run example_env ?st'))
       = ConstructSampler (analysis ?st)
           ((config ?st')\<lparr>partitions := [?declared ! unat (1 :: unsigned)]\<rparr>)"
    by (rule conjunct2)
  then have "hd (performed (main example_env ?argv))
       = ConstructSampler (analysis ?st)
           ((config ?st')\<lparr>partitions := [?declared ! unat (1 :: unsigned)]\<rparr>)"
    unfolding run .
  also have "analysis ?st = \<lparr>parameter_descriptions = [], fixed_values = []\<rparr>"
    by (simp add: CommandLine_new_def)
  also have "(config ?st')\<lparr>partitions := [?declared ! unat (1 :: unsigned)]\<rparr>
       = (config (CommandLine_new example_env))
            \<lparr>partitions := [[(''p'', 1, 2), (''q'', 3, 4)]], need_main_run := False,
             store_prerun := True\<rparr>"
    unfolding declared by simp
  finally show ?thesis .
qed

text \<open>
  C2, as stated, fails: a partition index without partitions is no failure when the
  optimization is asked for, since \<^verbatim>\<open>main\<close> returns from the optimization before it
  looks at the partition index. The command line below parses, holds a partition index and
  no partition, and exits successfully.
\<close>

theorem partition_index_without_partitions_counterexample:
  "\<not> isl (parse example_env (CommandLine_new example_env)
             [''eos-scan-mc'', ''--constraint'', ''c'', ''--partition-index'', ''0'',
              ''--optimize'', ''--debug''])
   \<and> partition_index (projr (parse example_env (CommandLine_new example_env)
             [''eos-scan-mc'', ''--constraint'', ''c'', ''--partition-index'', ''0'',
              ''--optimize'', ''--debug''])) = Some 0
   \<and> partitions (config (projr (parse example_env (CommandLine_new example_env)
             [''eos-scan-mc'', ''--constraint'', ''c'', ''--partition-index'', ''0'',
              ''--optimize'', ''--debug'']))) = []
   \<and> main example_env
         [''eos-scan-mc'', ''--constraint'', ''c'', ''--partition-index'', ''0'',
          ''--optimize'', ''--debug'']
       = \<lparr>exit_status = EXIT_SUCCESS, performed = [OptimizeMinuit []], caught = None\<rparr>"
  by (simp add: main_def parse_def parse_option_def CommandLine_new_def example_defs
      constraint_option_def partition_index_option_def optimize_option_def debug_option_def
      run_def optimization_def succeeded_def)

text \<open>
  C2, amended. With a partition index and no partition declared, no run builds or uses the
  sampler; and unless the optimization or the goodness of fit is asked for, the run fails
  with a usage error before anything is asked of the library.
\<close>

theorem partition_index_without_partitions:
  assumes "partition_index inst = Some i"
    and "partitions (config inst) = []"
  shows "\<not> list_ex uses_sampler (performed (run env inst))
         \<and> (\<not> optimize inst \<and> \<not> goodness_of_fit inst
              \<longrightarrow> (\<exists>m. run env inst = failed [] (DoUsage m)))"
proof -
  from assms have sel: "select_partition env inst
      = Inl (DoUsage (''Can'' @ [CHR 0x27] @ ''t select partition ''
                        @ stringify_unsigned env i @ '' from no partitions!''))"
    by (simp add: select_partition_def Let_def)
  have opt: "\<not> list_ex uses_sampler (performed (optimization env inst))"
    by (simp add: optimization_def Let_def failed_def succeeded_def split: option.splits)
  have gof: "\<not> list_ex uses_sampler (performed (goodness_of_fit_only env inst))"
    by (simp add: goodness_of_fit_only_def Let_def failed_def succeeded_def split: option.splits)
  from sel opt gof have "\<not> list_ex uses_sampler (performed (run env inst))"
    by (simp add: run_def failed_def)
  moreover from sel have "\<not> optimize inst \<and> \<not> goodness_of_fit inst
      \<longrightarrow> (\<exists>m. run env inst = failed [] (DoUsage m))"
    by (auto simp: run_def)
  ultimately show ?thesis by simp
qed

theorem partition_index_without_partitions_witness:
  "run example_env (example_inst\<lparr>partition_index := Some 0\<rparr>)
     = \<lparr>exit_status = EXIT_FAILURE, performed = [],
        caught = Some (DoUsage (''Can'' @ [CHR 0x27] @ ''t select partition  from no partitions!''))\<rparr>"
proof -
  have "partition_index (example_inst\<lparr>partition_index := Some 0\<rparr>) = Some 0"
    and "partitions (config (example_inst\<lparr>partition_index := Some 0\<rparr>)) = []"
    and "\<not> optimize (example_inst\<lparr>partition_index := Some 0\<rparr>)"
    and "\<not> goodness_of_fit (example_inst\<lparr>partition_index := Some 0\<rparr>)"
    by (simp_all add: example_inst_def CommandLine_new_def example_defs)
  with partition_index_without_partitions
         [of "example_inst\<lparr>partition_index := Some 0\<rparr>" 0 example_env]
  obtain m where "run example_env (example_inst\<lparr>partition_index := Some 0\<rparr>) = failed [] (DoUsage m)"
    by blast
  moreover have "run example_env (example_inst\<lparr>partition_index := Some 0\<rparr>)
     = \<lparr>exit_status = EXIT_FAILURE, performed = [],
        caught = Some (DoUsage (''Can'' @ [CHR 0x27] @ ''t select partition  from no partitions!''))\<rparr>"
    by (simp add: run_def select_partition_def failed_def example_inst_def CommandLine_new_def
        example_defs)
  ultimately show ?thesis by simp
qed

text \<open>Past the end of a non-empty list of partitions, the selection fails with the
  exception of \<^verbatim>\<open>at\<close>.\<close>

lemma select_partition_out_of_range:
  assumes "partition_index inst = Some i"
    and "partitions (config inst) \<noteq> []"
    and "length (partitions (config inst)) \<le> unat i"
  shows "select_partition env inst = Inl UnknownException"
  using assms by (simp add: select_partition_def Let_def)

text \<open>
  C3. A partition index past the declared partitions: \<^verbatim>\<open>temp.at(*i)\<close> throws
  \<^verbatim>\<open>std::out_of_range\<close>, which is neither \<^verbatim>\<open>DoUsage\<close> nor the library's
  \<^verbatim>\<open>Exception\<close>. The run fails before the sampler is built, but through the handler
  \<^verbatim>\<open>catch (...)\<close> ("Aborting after unknown exception") and not as a usage error, as it
  does when no partition is declared.
\<close>

theorem partition_index_out_of_range:
  "main example_env
     [''eos-scan-mc'', ''--constraint'', ''c'', ''--partition'', ''p'', ''0'', ''1'',
      ''--partition-index'', ''5'']
     = \<lparr>exit_status = EXIT_FAILURE, performed = [], caught = Some UnknownException\<rparr>"
  by (simp add: main_def parse_def parse_option_def CommandLine_new_def example_defs
      constraint_option_def partition_index_option_def partition_option_def
      partition_triples.simps run_def select_partition_def failed_def)

subsection \<open>The proposal and the resume file\<close>

text \<open>
  C4. \<^verbatim>\<open>--proposal MultivariateStudentT d\<close> is a usage error exactly when \<open>d \<le> 0\<close>;
  otherwise \<open>d\<close> is stored as the degrees of freedom of the configuration, and the round of
  the loop succeeds.
\<close>

theorem proposal_student_t_degrees_of_freedom:
  "parse_option env st ''--proposal'' (''MultivariateStudentT'' # d # a) =
     (if destringify_double env d \<le> 0
      then Inl (DoUsage ''No (or non-positive) degree of freedom for MultivariateStudentT specified'')
      else Inr (st\<lparr>config := (config st)\<lparr>proposal := ''MultivariateStudentT'',
                  student_t_degrees_of_freedom := destringify_double env d\<rparr>\<rparr>, a))"
  by (simp add: parse_option_def proposal_option_def Let_def)

theorem proposal_student_t_degrees_of_freedom_witness:
  "parse_option example_env example_inst ''--proposal'' [''MultivariateStudentT'', ''-1''] =
     Inl (DoUsage ''No (or non-positive) degree of freedom for MultivariateStudentT specified'')
   \<and> parse_option example_env example_inst ''--proposal'' [''MultivariateStudentT'', ''3''] =
     Inr (example_inst\<lparr>config := (config example_inst)\<lparr>proposal := ''MultivariateStudentT'',
            student_t_degrees_of_freedom := 3\<rparr>\<rparr>, [])"
proof -
  have "destringify_double example_env ''-1'' = - 1" and "destringify_double example_env ''3'' = 3"
    by (simp_all add: example_defs)
  with proposal_student_t_degrees_of_freedom [of example_env example_inst "''-1''" "[]"]
       proposal_student_t_degrees_of_freedom [of example_env example_inst "''3''" "[]"]
  show ?thesis by simp
qed

text \<open>
  C6, as stated, fails: \<^verbatim>\<open>--prerun-only\<close> after \<^verbatim>\<open>--resume\<close> enables the prerun
  again.
\<close>

theorem resume_then_prerun_only_counterexample:
  "\<not> isl (parse example_env (CommandLine_new example_env)
             [''eos-scan-mc'', ''--resume'', ''checkpoint.hdf5'', ''--prerun-only''])
   \<and> resume_file (projr (parse example_env (CommandLine_new example_env)
             [''eos-scan-mc'', ''--resume'', ''checkpoint.hdf5'', ''--prerun-only'']))
       = ''checkpoint.hdf5''
   \<and> need_prerun (config (projr (parse example_env (CommandLine_new example_env)
             [''eos-scan-mc'', ''--resume'', ''checkpoint.hdf5'', ''--prerun-only''])))"
  by (simp add: parse_def parse_option_def CommandLine_new_def example_defs
      resume_option_def prerun_only_option_def)

text \<open>
  C6, amended. From the round of the loop that reads \<^verbatim>\<open>--resume\<close> on, the prerun stays
  disabled up to the end of a successful parse, unless \<^verbatim>\<open>--prerun-only\<close> is among the
  arguments that follow.
\<close>

theorem resume_disables_prerun:
  assumes "parse_loop env st (''--resume'' # path # a) = Inr st'"
    and "''--prerun-only'' \<notin> set a"
  shows "\<not> need_prerun (config st')"
proof -
  have "parse_option env st ''--resume'' (path # a)
          = Inr (st\<lparr>resume_file := path, config := (config st)\<lparr>need_prerun := False\<rparr>\<rparr>, a)"
    by (simp add: parse_option_def resume_option_def)
  with assms(1) have
    "parse_loop env (st\<lparr>resume_file := path, config := (config st)\<lparr>need_prerun := False\<rparr>\<rparr>) a
       = Inr st'"
    by simp
  from parse_loop_need_prerun [OF this _ assms(2)] show ?thesis
    by simp
qed

theorem resume_disables_prerun_witness:
  "\<not> need_prerun (config (projr (parse_loop example_env example_inst
       [''--resume'', ''checkpoint.hdf5'', ''--chains'', ''2''])))"
proof -
  have "parse_loop example_env example_inst [''--resume'', ''checkpoint.hdf5'', ''--chains'', ''2'']
          = Inr (example_inst\<lparr>resume_file := ''checkpoint.hdf5'',
                   config := (config example_inst)\<lparr>need_prerun := False, number_of_chains := 2\<rparr>\<rparr>)"
    by (simp add: parse_option_def resume_option_def chains_option_def example_defs
        example_inst_def CommandLine_new_def)
  moreover have "''--prerun-only'' \<notin> set [''--chains'', ''2'']"
    by simp
  ultimately have "\<not> need_prerun (config (example_inst\<lparr>resume_file := ''checkpoint.hdf5'',
                   config := (config example_inst)\<lparr>need_prerun := False, number_of_chains := 2\<rparr>\<rparr>))"
    by (rule resume_disables_prerun)
  moreover have "parse_loop example_env example_inst [''--resume'', ''checkpoint.hdf5'', ''--chains'', ''2'']
          = Inr (example_inst\<lparr>resume_file := ''checkpoint.hdf5'',
                   config := (config example_inst)\<lparr>need_prerun := False, number_of_chains := 2\<rparr>\<rparr>)"
    by fact
  ultimately show ?thesis by simp
qed

subsection \<open>Priors of scan and nuisance parameters\<close>

text \<open>
  C5. A scan or nuisance parameter with hard bounds, a number of sigmas \<open>n > 0\<close> and a
  gaussian or log-gamma prior given by its quantiles: when the library accepts the number of
  sigmas, the prior and the parameter, the parameter is recorded with the range
  \<open>[max hmin (central - n (central - lower)), min hmax (central + n (upper - central))]\<close>,
  which lies within the hard bounds.
\<close>

theorem quantile_range_within_hard_bounds:
  assumes "prior_type = ''gaussian'' \<or> prior_type = ''log-gamma''"
    and "argument = ''--scan'' \<or> argument = ''--nuisance''"
    and "hmax_s \<noteq> ''--prior''" and "n_s \<noteq> ''--prior''"
    and "hmin = destringify_double env hmin_s" and "hmax = destringify_double env hmax_s"
    and "n = destringify_double env n_s" and "0 < n"
    and "lower = destringify_double env lower_s"
    and "central = destringify_double env central_s"
    and "upper = destringify_double env upper_s"
    and "rg = \<lparr>range_min = max hmin (central - n * (central - lower)),
                range_max = min hmax (central + n * (upper - central))\<rparr>"
    and "p = (if prior_type = ''gaussian'' then Gauss name rg lower central upper
              else LogGamma name rg lower central upper)"
    and "d = \<lparr>parameter = name, min_value = range_min rg, max_value = range_max rg,
               prior = prior_type\<rparr>"
    and "VerifiedRange_throws env 0 10 0 = None" and "VerifiedRange_throws env 0 10 n = None"
    and "LogPrior_make env p = None" and "Parameters_lookup env name = None"
    and "Analysis_add env (analysis st) p (argument = ''--nuisance'') = Some an"
  shows "parse_option env st argument
           (name # hmin_s # hmax_s # n_s # ''--prior'' # prior_type
              # lower_s # central_s # upper_s # a)
         = Inr ((if argument = ''--nuisance''
                 then st\<lparr>nuisance_parameters := nuisance_parameters st @ [d]\<rparr>
                 else st\<lparr>scan_parameters := scan_parameters st @ [d]\<rparr>)\<lparr>analysis := an\<rparr>, a)
         \<and> hmin \<le> min_value d \<and> max_value d \<le> hmax"
proof -
  from assms(8) have n0: "n \<noteq> 0" by simp
  have prior: "scan_prior env st argument name hmin hmax n ''--prior''
                 (prior_type # lower_s # central_s # upper_s # a)
               = add_parameter env st argument name rg prior_type p a"
    using assms(1,8,9,10,11,12,13) by (auto simp: scan_prior_def Let_def)
  have add: "add_parameter env st argument name rg prior_type p a
             = Inr ((if argument = ''--nuisance''
                     then st\<lparr>nuisance_parameters := nuisance_parameters st @ [d]\<rparr>
                     else st\<lparr>scan_parameters := scan_parameters st @ [d]\<rparr>)\<lparr>analysis := an\<rparr>, a)"
    using assms(14,17,18,19)
    by (cases "argument = ''--nuisance''") (simp_all add: add_parameter_def Let_def)
  have "scan_option env st argument
           (name # hmin_s # hmax_s # n_s # ''--prior'' # prior_type
              # lower_s # central_s # upper_s # a)
        = scan_prior env st argument name hmin hmax n ''--prior''
            (prior_type # lower_s # central_s # upper_s # a)"
    using assms(3,4,5,6,7,15,16) n0 by (simp add: scan_option_def VerifiedRange_def Let_def)
  moreover from assms(2) have "parse_option env st argument b = scan_option env st argument b" for b
    by (simp add: parse_option_def)
  ultimately have "parse_option env st argument
           (name # hmin_s # hmax_s # n_s # ''--prior'' # prior_type
              # lower_s # central_s # upper_s # a)
         = Inr ((if argument = ''--nuisance''
                 then st\<lparr>nuisance_parameters := nuisance_parameters st @ [d]\<rparr>
                 else st\<lparr>scan_parameters := scan_parameters st @ [d]\<rparr>)\<lparr>analysis := an\<rparr>, a)"
    using prior add by simp
  moreover from assms(12,14) have "hmin \<le> min_value d" and "max_value d \<le> hmax"
    by simp_all
  ultimately show ?thesis by simp
qed

text \<open>Hard bounds \<open>[-1, 5]\<close>, two sigmas and the quantiles 1, 2, 4: the interval of the
  quantiles is \<open>[0, 6]\<close>, the range \<open>[0, 5]\<close>.\<close>

theorem quantile_range_within_hard_bounds_witness:
  "parse_option example_env example_inst ''--scan''
     [''x'', ''-1'', ''5'', ''2'', ''--prior'', ''gaussian'', ''1'', ''2'', ''4'']
   = Inr (example_inst
            \<lparr>scan_parameters := [\<lparr>parameter = ''x'', min_value = 0, max_value = 5,
                                   prior = ''gaussian''\<rparr>],
             analysis := \<lparr>parameter_descriptions =
                            [(Gauss ''x'' \<lparr>range_min = 0, range_max = 5\<rparr> 1 2 4, False)],
                          fixed_values = []\<rparr>\<rparr>, [])"
proof -
  let ?rg = "\<lparr>range_min = 0, range_max = 5\<rparr> :: ParameterRange"
  let ?p = "Gauss ''x'' ?rg 1 2 4"
  let ?d = "\<lparr>parameter = ''x'', min_value = 0, max_value = 5, prior = ''gaussian''\<rparr>"
  let ?an = "\<lparr>parameter_descriptions = [(?p, False)], fixed_values = []\<rparr>"
  have "parse_option example_env example_inst ''--scan''
          (''x'' # ''-1'' # ''5'' # ''2'' # ''--prior'' # ''gaussian'' # ''1'' # ''2'' # ''4'' # [])
        = Inr ((if ''--scan'' = ''--nuisance''
                then example_inst\<lparr>nuisance_parameters := nuisance_parameters example_inst @ [?d]\<rparr>
                else example_inst\<lparr>scan_parameters := scan_parameters example_inst @ [?d]\<rparr>)
                 \<lparr>analysis := ?an\<rparr>, [])
        \<and> - 1 \<le> min_value ?d \<and> max_value ?d \<le> 5"
    by (rule quantile_range_within_hard_bounds
          [where n = 2 and lower = 1 and central = 2 and upper = 4 and rg = ?rg and p = ?p])
       (simp_all add: example_inst_def CommandLine_new_def example_defs)
  then show ?thesis
    by (simp add: example_inst_def CommandLine_new_def)
qed





text \<open>
  C10, as stated, fails for a number of sigmas that \<^verbatim>\<open>VerifiedRange\<close> refuses: its
  constructor throws before the prior type is read, and the failure is the library's
  exception, not a usage error. The example library refuses what is outside of
  \<open>[0, 10]\<close>, as the comment on the formats in \<^verbatim>\<open>parse\<close> says.
\<close>

theorem flat_prior_with_sigmas_out_of_range_counterexample:
  "0 < destringify_double example_env ''11''
   \<and> parse_option example_env example_inst ''--scan'' [''x'', ''11'', ''--prior'', ''flat'']
     = Inl (Exception ''out of range'')
   \<and> parse_option example_env example_inst ''--scan''
       [''x'', ''0'', ''1'', ''11'', ''--prior'', ''flat'']
     = Inl (Exception ''out of range'')"
  by (simp add: parse_option_def scan_option_def VerifiedRange_def example_defs)

text \<open>
  C10, amended. A scan or nuisance parameter with a flat prior and a positive number of
  sigmas never parses. At the point where the prior type is read the failure is the usage
  error "Can't specify number of sigmas for flat prior"; for both formats of the command
  line that give a number of sigmas it is that usage error when \<^verbatim>\<open>VerifiedRange\<close>
  accepts the number, and the exception of \<^verbatim>\<open>VerifiedRange\<close> when it does not.
\<close>

theorem flat_prior_with_sigmas_rejected:
  assumes "argument = ''--scan'' \<or> argument = ''--nuisance''"
    and "n = destringify_double env n_s" and "0 < n"
    and "VerifiedRange_throws env 0 10 0 = None"
    and "hmax_s \<noteq> ''--prior''" and "n_s \<noteq> ''--prior''"
    and "rejected = (case VerifiedRange_throws env 0 10 n of
                       None \<Rightarrow> Inl (DoUsage (''Can'' @ [CHR 0x27]
                                                @ ''t specify number of sigmas for flat prior''))
                     | Some m \<Rightarrow> Inl (Exception m))"
  shows "scan_prior env st argument name mn mx n ''--prior'' (''flat'' # a)
           = Inl (DoUsage (''Can'' @ [CHR 0x27] @ ''t specify number of sigmas for flat prior''))
         \<and> parse_option env st argument (name # n_s # ''--prior'' # ''flat'' # a) = rejected
         \<and> parse_option env st argument (name # hmin_s # hmax_s # n_s # ''--prior'' # ''flat'' # a)
           = rejected"
proof -
  have flat: "scan_prior env st argument name lo hi n ''--prior'' (''flat'' # a)
           = Inl (DoUsage (''Can'' @ [CHR 0x27] @ ''t specify number of sigmas for flat prior''))"
    for lo hi
    using assms(3) by (simp add: scan_prior_def)
  from assms(3) have n0: "n \<noteq> 0" by simp
  from assms(1) have scan: "parse_option env st argument b = scan_option env st argument b" for b
    by (simp add: parse_option_def)
  have "scan_option env st argument (name # n_s # ''--prior'' # ''flat'' # a) = rejected"
  proof (cases "VerifiedRange_throws env 0 10 n")
    case None
    with assms(2,4,7) n0 flat [of "- DBL_MAX" DBL_MAX] show ?thesis
      by (simp add: scan_option_def VerifiedRange_def Let_def)
  next
    case (Some m)
    with assms(2,4,7) show ?thesis
      by (simp add: scan_option_def VerifiedRange_def Let_def)
  qed
  moreover
  have "scan_option env st argument (name # hmin_s # hmax_s # n_s # ''--prior'' # ''flat'' # a)
          = rejected"
  proof (cases "VerifiedRange_throws env 0 10 n")
    case None
    with assms(2,4,5,6,7) n0
      flat [of "destringify_double env hmin_s" "destringify_double env hmax_s"]
    show ?thesis
      by (simp add: scan_option_def VerifiedRange_def Let_def)
  next
    case (Some m)
    with assms(2,4,5,6,7) show ?thesis
      by (simp add: scan_option_def VerifiedRange_def Let_def)
  qed
  ultimately show ?thesis
    by (simp only: scan flat)
qed

theorem flat_prior_with_sigmas_rejected_witness:
  "parse_option example_env example_inst ''--scan'' [''x'', ''2'', ''--prior'', ''flat'']
     = Inl (DoUsage (''Can'' @ [CHR 0x27] @ ''t specify number of sigmas for flat prior''))
   \<and> parse_option example_env example_inst ''--nuisance''
       [''x'', ''0'', ''1'', ''2'', ''--prior'', ''flat'']
     = Inl (DoUsage (''Can'' @ [CHR 0x27] @ ''t specify number of sigmas for flat prior''))"
proof -
  have scan: "''--scan'' = ''--scan'' \<or> ''--scan'' = ''--nuisance''"
    and nuisance: "''--nuisance'' = ''--scan'' \<or> ''--nuisance'' = ''--nuisance''"
    and n: "(2 :: real) = destringify_double example_env ''2''" "0 < (2 :: real)"
    and zero: "VerifiedRange_throws example_env 0 10 0 = None"
    and words: "''1'' \<noteq> ''--prior''" "''2'' \<noteq> ''--prior''"
    and rejected: "Inl (DoUsage (''Can'' @ [CHR 0x27] @ ''t specify number of sigmas for flat prior''))
       = (case VerifiedRange_throws example_env 0 10 2 of
            None \<Rightarrow> Inl (DoUsage (''Can'' @ [CHR 0x27]
                                     @ ''t specify number of sigmas for flat prior''))
          | Some m \<Rightarrow> (Inl (Exception m) :: failure + (CommandLine \<times> string list)))"
    by (simp_all add: example_defs)
  from flat_prior_with_sigmas_rejected
         [OF scan n zero words rejected, of example_inst "''x''" 0 0 "[]" "''0''"]
       flat_prior_with_sigmas_rejected
         [OF nuisance n zero words rejected, of example_inst "''x''" 0 0 "[]" "''0''"]
  show ?thesis by simp
qed

subsection \<open>The optimization\<close>

text \<open>A command line that does not parse asks nothing of the library.\<close>

lemma main_parse_failure:
  "parse env (CommandLine_new env) argv = Inl e \<Longrightarrow> main env argv = failed [] e"
  by (simp add: main_def)

text \<open>
  C8, as stated, fails: with \<^verbatim>\<open>--optimize\<close> and a starting point of another size than
  the analysis, the run is a usage error and nothing is optimized.
\<close>

theorem optimize_with_wrong_starting_point_counterexample:
  "\<not> isl (parse example_env (CommandLine_new example_env)
             [''eos-scan-mc'', ''--constraint'', ''c'', ''--optimize'', ''{'', ''1'', ''}''])
   \<and> optimize (projr (parse example_env (CommandLine_new example_env)
             [''eos-scan-mc'', ''--constraint'', ''c'', ''--optimize'', ''{'', ''1'', ''}'']))
   \<and> exit_status (main example_env
             [''eos-scan-mc'', ''--constraint'', ''c'', ''--optimize'', ''{'', ''1'', ''}''])
       = EXIT_FAILURE
   \<and> performed (main example_env
             [''eos-scan-mc'', ''--constraint'', ''c'', ''--optimize'', ''{'', ''1'', ''}''])
       = []"
  by (simp add: main_def parse_def parse_option_def CommandLine_new_def example_defs
      constraint_option_def optimize_option_def run_def optimization_def failed_def)

text \<open>
  C8, amended. When the command line parses with the optimization asked for,
  \<^verbatim>\<open>main\<close> never builds or uses the sampler. When moreover an input or a constraint is
  given, the starting point (the one given, or else the one sampled from the priors) has the
  size of the analysis, and the optimizer and the goodness of fit throw nothing,
  \<^verbatim>\<open>main\<close> optimizes from that starting point, computes the goodness of fit at the mode
  found if it was asked for without a point, does nothing else and exits successfully.
\<close>

theorem optimize_never_samples:
  assumes "parse env (CommandLine_new env) argv = Inr inst"
    and "optimize inst"
    and "point = (if starting_point inst = []
                  then map (\<lambda>d. LogPrior_sample env (fst d)) (parameter_descriptions (analysis inst))
                  else starting_point inst)"
    and "mode = minuit_parameters env (analysis inst) point"
  shows "\<not> list_ex uses_sampler (performed (main env argv))
         \<and> ((inputs inst \<noteq> [] \<or> constraints inst \<noteq> [])
              \<and> length point = length (parameter_descriptions (analysis inst))
              \<and> library_throws env (OptimizeMinuit point) = None
              \<and> (goodness_of_fit inst \<and> best_fit_point inst = []
                    \<longrightarrow> library_throws env (GoodnessOfFit mode None) = None)
            \<longrightarrow> main env argv
                  = succeeded (OptimizeMinuit point
                      # (if goodness_of_fit inst \<and> best_fit_point inst = []
                         then [GoodnessOfFit mode None] else [])))"
proof -
  from assms(1) have m: "main env argv = run env inst"
    by (simp add: main_def)
  have "\<not> list_ex uses_sampler (performed (optimization env inst))"
    by (simp add: optimization_def Let_def failed_def succeeded_def split: option.splits)
  with assms(2) have never: "\<not> list_ex uses_sampler (performed (run env inst))"
    by (simp add: run_def failed_def)
  have "run env inst
          = succeeded (OptimizeMinuit point
              # (if goodness_of_fit inst \<and> best_fit_point inst = []
                 then [GoodnessOfFit mode None] else []))"
    if given: "inputs inst \<noteq> [] \<or> constraints inst \<noteq> []"
      and size: "length point = length (parameter_descriptions (analysis inst))"
      and optimizer: "library_throws env (OptimizeMinuit point) = None"
      and fit: "goodness_of_fit inst \<and> best_fit_point inst = []
                  \<longrightarrow> library_throws env (GoodnessOfFit mode None) = None"
  proof -
    from assms(2) given have r: "run env inst = optimization env inst"
      by (auto simp: run_def)
    from size optimizer fit show ?thesis
      unfolding r optimization_def Let_def assms(3) [symmetric] assms(4) [symmetric]
      by auto
  qed
  with never show ?thesis
    unfolding m by blast
qed

text \<open>One scan parameter, the starting point 2 and the goodness of fit asked for without a
  point: the optimizer of the example library returns the mode 1.\<close>

theorem optimize_never_samples_witness:
  "main example_env
     [''eos-scan-mc'', ''--constraint'', ''c'', ''--scan'', ''x'', ''0'', ''4'', ''--prior'', ''flat'',
      ''--goodness-of-fit'', ''--optimize'', ''{'', ''2'', ''}'']
   = \<lparr>exit_status = EXIT_SUCCESS,
      performed = [OptimizeMinuit [2], GoodnessOfFit [1] None],
      caught = None\<rparr>"
proof -
  let ?argv = "[''eos-scan-mc'', ''--constraint'', ''c'', ''--scan'', ''x'', ''0'', ''4'',
      ''--prior'', ''flat'', ''--goodness-of-fit'', ''--optimize'', ''{'', ''2'', ''}'']"
  let ?inst = "projr (parse example_env (CommandLine_new example_env) ?argv)"
  have evaluated: "\<not> isl (parse example_env (CommandLine_new example_env) ?argv)"
    "optimize ?inst" "goodness_of_fit ?inst" "best_fit_point ?inst = []"
    "starting_point ?inst = [2]" "constraints ?inst \<noteq> []"
    "length (parameter_descriptions (analysis ?inst)) = 1"
    by (simp_all add: parse_def parse_option_def constraint_option_def scan_option_def
        scan_prior_def add_parameter_def VerifiedRange_def goodness_of_fit_option_def
        optimize_option_def CommandLine_new_def example_defs)
  from evaluated(1) have parsed: "parse example_env (CommandLine_new example_env) ?argv = Inr ?inst"
    by simp
  have point: "[2 :: real] = (if starting_point ?inst = []
                  then map (\<lambda>d. LogPrior_sample example_env (fst d))
                         (parameter_descriptions (analysis ?inst))
                  else starting_point ?inst)"
    by (simp add: evaluated(5))
  have mode: "[1 :: real] = minuit_parameters example_env (analysis ?inst) [2]"
    by (simp add: example_defs)
  note optimized = optimize_never_samples [OF parsed evaluated(2) point mode]
  have quiet: "library_throws example_env act = None" for act
    by (simp add: example_defs)
  have "(inputs ?inst \<noteq> [] \<or> constraints ?inst \<noteq> [])
          \<and> length [2 :: real] = length (parameter_descriptions (analysis ?inst))
          \<and> library_throws example_env (OptimizeMinuit [2]) = None
          \<and> (goodness_of_fit ?inst \<and> best_fit_point ?inst = []
                \<longrightarrow> library_throws example_env (GoodnessOfFit [1] None) = None)"
    by (simp add: evaluated quiet)
  with optimized have "main example_env ?argv
      = succeeded (OptimizeMinuit [2]
          # (if goodness_of_fit ?inst \<and> best_fit_point ?inst = []
             then [GoodnessOfFit [1] None] else []))"
    by (rule conjunct2 [THEN mp])
  then show ?thesis
    by (simp add: evaluated succeeded_def)
qed

subsection \<open>The partition index and the main run\<close>

text \<open>
  C9, as stated, fails where it says that no other option implies both effects:
  \<^verbatim>\<open>--prerun-only\<close> alone disables the main run and stores the prerun data.
\<close>

theorem prerun_only_counterexample:
  "need_main_run (config (CommandLine_new example_env))
   \<and> \<not> store_prerun (config (CommandLine_new example_env))
   \<and> \<not> isl (parse example_env (CommandLine_new example_env) [''eos-scan-mc'', ''--prerun-only''])
   \<and> partition_index (projr (parse example_env (CommandLine_new example_env)
         [''eos-scan-mc'', ''--prerun-only''])) = None
   \<and> \<not> need_main_run (config (projr (parse example_env (CommandLine_new example_env)
         [''eos-scan-mc'', ''--prerun-only''])))
   \<and> store_prerun (config (projr (parse example_env (CommandLine_new example_env)
         [''eos-scan-mc'', ''--prerun-only''])))"
  by (simp add: parse_def parse_option_def CommandLine_new_def example_defs prerun_only_option_def)

text \<open>
  C9, amended. Every parsed command line that holds a partition index has the main run
  disabled and the storing of the prerun data enabled.
\<close>

theorem partition_index_implies_prerun_output:
  assumes "parse env (CommandLine_new env) argv = Inr inst"
    and "partition_index inst \<noteq> None"
  shows "\<not> need_main_run (config inst) \<and> store_prerun (config inst)"
proof -
  from assms(1) obtain argv0 args where
    loop: "parse_loop env
             ((CommandLine_new env)\<lparr>log_level := ll_informational,
                creator := foldl (\<lambda>c s. c @ '' '' @ s) argv0 args\<rparr>) args = Inr inst"
    by (auto simp: parse_def split: list.splits)
  have "index_implies_prerun_output
          ((CommandLine_new env)\<lparr>log_level := ll_informational,
             creator := foldl (\<lambda>c s. c @ '' '' @ s) argv0 args\<rparr>)"
    by (simp add: index_implies_prerun_output_def CommandLine_new_def)
  from parse_loop_index [OF loop this] assms(2) show ?thesis
    by (simp add: index_implies_prerun_output_def)
qed

theorem partition_index_implies_prerun_output_witness:
  "partition_index (projr (parse example_env (CommandLine_new example_env)
       [''eos-scan-mc'', ''--partition-index'', ''2''])) = Some 2
   \<and> \<not> need_main_run (config (projr (parse example_env (CommandLine_new example_env)
       [''eos-scan-mc'', ''--partition-index'', ''2''])))
   \<and> store_prerun (config (projr (parse example_env (CommandLine_new example_env)
       [''eos-scan-mc'', ''--partition-index'', ''2''])))"
proof -
  let ?inst = "(CommandLine_new example_env)
       \<lparr>creator := ''eos-scan-mc --partition-index 2'', partition_index := Some 2,
        config := (config (CommandLine_new example_env))
          \<lparr>need_main_run := False, store_prerun := True\<rparr>\<rparr>"
  have p: "parse example_env (CommandLine_new example_env)
          [''eos-scan-mc'', ''--partition-index'', ''2''] = Inr ?inst"
    by (simp add: parse_def parse_option_def partition_index_option_def CommandLine_new_def
        example_defs)
  moreover have "partition_index ?inst \<noteq> None"
    by simp
  ultimately have "\<not> need_main_run (config ?inst) \<and> store_prerun (config ?inst)"
    by (rule partition_index_implies_prerun_output)
  with p show ?thesis by simp
qed

end
